theory Spec2Isabelle
  imports Main "HOL-Library.Multiset"
begin

section \<open>JavaScript values shared by Layer and Router\<close>

text \<open>
  Strings are byte strings; \<open>toUpperCase\<close> is the ASCII part of
  \<open>String.prototype.toUpperCase\<close>, which is what HTTP method names use.
\<close>

definition upper_char :: "char \<Rightarrow> char" where
  "upper_char c =
     (case map_of (zip ''abcdefghijklmnopqrstuvwxyz'' ''ABCDEFGHIJKLMNOPQRSTUVWXYZ'') c of
        Some u \<Rightarrow> u
      | None \<Rightarrow> c)"

definition toUpperCase :: "string \<Rightarrow> string" where
  "toUpperCase s = map upper_char s"

text \<open>\<open>Array.prototype.join\<close> and \<open>Array.prototype.indexOf\<close> (\<open>-1\<close> when absent).\<close>

fun join :: "string \<Rightarrow> string list \<Rightarrow> string" where
  "join sep [] = []"
| "join sep [x] = x"
| "join sep (x # y # ys) = x @ sep @ join sep (y # ys)"

definition indexOf :: "'a list \<Rightarrow> 'a \<Rightarrow> int" where
  "indexOf xs a = (if a \<in> set xs then int (length (takeWhile (\<lambda>y. y \<noteq> a) xs)) else - 1)"

text \<open>Exceptions thrown by the router; \<open>Custom\<close> is an error object supplied by the caller.\<close>

datatype 'e exn =
    TypeError string
  | AssertionError string
  | NotImplemented
  | MethodNotAllowed
  | Custom 'e

text \<open>
  A capture group is a string, or \<open>undefined\<close> when the group took no part in the match.
  A compiled regular expression is its \<open>String.prototype.match\<close> function: \<open>None\<close> is
  \<open>null\<close>, \<open>Some m\<close> the match array (the whole match, then the groups). The expressions
  that \<open>path-to-regexp\<close> builds carry no \<open>g\<close> flag, so \<open>test\<close> holds exactly when
  \<open>match\<close> is not \<open>null\<close>.
\<close>

type_synonym capture = "string option"

type_synonym regexp = "string \<Rightarrow> capture list option"

text \<open>The \<open>name\<close> of a \<open>path-to-regexp\<close> key: a string, or a number for an unnamed group.\<close>

datatype key_name = KStr string | KNum nat

text \<open>A route path is a string or a \<open>RegExp\<close>, the latter kept as its \<open>toString()\<close> text.\<close>

datatype route_path = PathString string | PathRegExp string

fun path_text :: "route_path \<Rightarrow> string" where
  "path_text (PathString s) = s"
| "path_text (PathRegExp s) = s"

fun path_truthy :: "route_path \<Rightarrow> bool" where
  "path_truthy (PathString s) = (s \<noteq> [])"
| "path_truthy (PathRegExp s) = True"

definition str_truthy :: "string option \<Rightarrow> bool" where
  "str_truthy v = (case v of None \<Rightarrow> False | Some s \<Rightarrow> s \<noteq> [])"

section \<open>Layer\<close>

record layer_options =
  opt_prefix :: "string option"
  opt_name :: "string option"
  opt_sensitive :: "bool option"
  opt_strict :: "bool option"
  opt_ignoreCaptures :: "bool option"
  opt_end :: "bool option"

definition no_options :: layer_options where
  "no_options = \<lparr>opt_prefix = None, opt_name = None, opt_sensitive = None, opt_strict = None,
     opt_ignoreCaptures = None, opt_end = None\<rparr>"

text \<open>
  An entry of a middleware stack. \<open>UserFn h\<close> is a function given by the caller,
  \<open>ParamFn param fn\<close> the closure that \<open>Layer.param\<close> builds around the validator
  \<open>fn\<close>. \<open>mw_type\<close> is what \<open>typeof\<close> and \<open>isGeneratorFunction\<close> see,
  \<open>mw_param\<close> the optional \<open>param\<close> property.
\<close>

datatype fn_type = PlainFunction | GeneratorFunction | NotFunction string

datatype ('h, 'p) callee = UserFn 'h | ParamFn string 'p

record ('h, 'p) middleware =
  mw_fn :: "('h, 'p) callee"
  mw_type :: fn_type
  mw_param :: "string option"

text \<open>The fields of a layer; \<open>paramNames\<close> is kept as the names of its keys.\<close>

record ('h, 'p) layer =
  layer_opts :: layer_options
  layer_name :: "string option"
  layer_methods :: "string list"
  layer_stack :: "('h, 'p) middleware list"
  layer_path :: route_path
  layer_regexp :: regexp
  layer_paramNames :: "key_name list"

text \<open>
  \<open>pathToRegExp(path, keys, opts)\<close> of the package \<open>path-to-regexp\<close> is a parameter of
  the model: it throws on a pattern it rejects, and otherwise returns the compiled expression
  and the keys it pushed.
\<close>

type_synonym 'e pathToRegExp =
  "route_path \<Rightarrow> layer_options \<Rightarrow> 'e exn + (regexp \<times> key_name list)"

text \<open>
  The loop of the constructor over \<open>methods\<close>: push the upper-cased name; when the entry
  just pushed is \<open>GET\<close>, unshift \<open>HEAD\<close>.
\<close>

fun add_methods :: "string list \<Rightarrow> string list \<Rightarrow> string list" where
  "add_methods acc [] = acc"
| "add_methods acc (method # rest) =
     (let pushed = acc @ [toUpperCase method]; l = length pushed
      in add_methods (if pushed ! (l - 1) = ''GET'' then ''HEAD'' # pushed else pushed) rest)"

text \<open>The check of the stack: the first entry that is not a plain function throws.\<close>

definition middleware_error ::
  "string list \<Rightarrow> layer_options \<Rightarrow> route_path \<Rightarrow> fn_type \<Rightarrow> string option" where
  "middleware_error methods opts path t =
     (let shown = join '','' methods @ '' `''
        @ (if str_truthy (opt_name opts) then the (opt_name opts) else path_text path)
      in case t of
           NotFunction type \<Rightarrow>
             Some (shown @ ''`: `middleware` must be a function, not `'' @ type @ ''`'')
         | GeneratorFunction \<Rightarrow>
             Some (shown @ ''`: Please use async function instead of generator function'')
         | PlainFunction \<Rightarrow> None)"

fun check_stack ::
  "string list \<Rightarrow> layer_options \<Rightarrow> route_path \<Rightarrow> ('h, 'p) middleware list \<Rightarrow> string option" where
  "check_stack methods opts path [] = None"
| "check_stack methods opts path (fn # rest) =
     (case middleware_error methods opts path (mw_type fn) of
        Some msg \<Rightarrow> Some msg
      | None \<Rightarrow> check_stack methods opts path rest)"

text \<open>
  The constructor. The call that gives the route name in the place of the options is
  the call with the options \<open>{ name }\<close>; \<open>middlewares\<close> is the stack, a single
  function being the stack of that function.
\<close>

definition Layer ::
  "'e pathToRegExp \<Rightarrow> route_path \<Rightarrow> string list \<Rightarrow> ('h, 'p) middleware list \<Rightarrow>
     layer_options option \<Rightarrow> 'e exn + ('h, 'p) layer" where
  "Layer pathToRegExp path methods middlewares opts =
     (let opts0 = (case opts of None \<Rightarrow> no_options | Some given \<Rightarrow> given);
          opts1 = opts0\<lparr>opt_prefix :=
                    Some (case opt_prefix opts0 of None \<Rightarrow> [] | Some p \<Rightarrow> p)\<rparr>
      in case check_stack methods opts1 path middlewares of
           Some msg \<Rightarrow> Inl (TypeError msg)
         | None \<Rightarrow>
             (case pathToRegExp path opts1 of
                Inl e \<Rightarrow> Inl e
              | Inr (re, keys) \<Rightarrow>
                  Inr \<lparr>layer_opts = opts1, layer_name = opt_name opts1,
                       layer_methods = add_methods [] methods, layer_stack = middlewares,
                       layer_path = path, layer_regexp = re, layer_paramNames = keys\<rparr>))"

text \<open>\<open>Layer.match\<close>: \<open>this.regexp.test(path)\<close>.\<close>

definition layer_match :: "('h, 'p) layer \<Rightarrow> string \<Rightarrow> bool" where
  "layer_match l path = (layer_regexp l path \<noteq> None)"

text \<open>\<open>Layer.captures\<close>: nothing under \<open>ignoreCaptures\<close>, else \<open>m.slice(1)\<close> or \<open>[]\<close>.\<close>

definition captures :: "('h, 'p) layer \<Rightarrow> string \<Rightarrow> capture list" where
  "captures l path =
     (if opt_ignoreCaptures (layer_opts l) = Some True then []
      else case layer_regexp l path of None \<Rightarrow> [] | Some m \<Rightarrow> drop 1 m)"

text \<open>
  \<open>Layer.param\<close>. The loop \<open>stack.some\<close> stops at the first entry without a truthy
  \<open>param\<close> property, or whose parameter comes after \<open>x\<close> in \<open>names\<close>, and splices
  the new middleware in front of it; when no entry stops the loop the stack is left as it is.
\<close>

definition stops :: "key_name list \<Rightarrow> int \<Rightarrow> ('h, 'p) middleware \<Rightarrow> bool" where
  "stops names x fn =
     (\<not> str_truthy (mw_param fn) \<or> indexOf names (KStr (the (mw_param fn))) > x)"

fun some_splice ::
  "key_name list \<Rightarrow> int \<Rightarrow> ('h, 'p) middleware \<Rightarrow> ('h, 'p) middleware list \<Rightarrow>
     ('h, 'p) middleware list" where
  "some_splice names x middleware [] = []"
| "some_splice names x middleware (fn # rest) =
     (if stops names x fn then middleware # fn # rest
      else fn # some_splice names x middleware rest)"

definition param_middleware :: "string \<Rightarrow> 'p \<Rightarrow> ('h, 'p) middleware" where
  "param_middleware p fn = \<lparr>mw_fn = ParamFn p fn, mw_type = PlainFunction, mw_param = Some p\<rparr>"

definition param :: "string \<Rightarrow> 'p \<Rightarrow> ('h, 'p) layer \<Rightarrow> ('h, 'p) layer" where
  "param p fn l =
     (let middleware = param_middleware p fn;
          names = layer_paramNames l;
          x = indexOf names (KStr p)
      in if x > - 1 then l\<lparr>layer_stack := some_splice names x middleware (layer_stack l)\<rparr>
         else l)"

text \<open>\<open>Layer.setPrefix\<close>: a truthy path gets the prefix in front and is compiled again.\<close>

definition setPrefix ::
  "'e pathToRegExp \<Rightarrow> string \<Rightarrow> ('h, 'p) layer \<Rightarrow> 'e exn + ('h, 'p) layer" where
  "setPrefix pathToRegExp prefix l =
     (if path_truthy (layer_path l) then
        (let path' = PathString (prefix @ path_text (layer_path l))
         in case pathToRegExp path' (layer_opts l) of
              Inl e \<Rightarrow> Inl e
            | Inr (re, keys) \<Rightarrow>
                Inr (l\<lparr>layer_path := path', layer_paramNames := keys, layer_regexp := re\<rparr>))
      else Inr l)"

text \<open>
  Modelled from the spec: \<open>decodeURIComponent\<close> of the package \<open>utility\<close>, which
  \<open>Layer.params\<close> imports as \<open>safeDecodeURIComponent\<close>, is not part of the repository.
  It is the built-in decoder with the failure absorbed: a malformed escape sequence gives the
  input back. The built-in decoder is the parameter \<open>decode\<close>, \<open>None\<close> where it throws
  \<open>URIError\<close>.
\<close>

definition safeDecodeURIComponent :: "(string \<Rightarrow> string option) \<Rightarrow> string \<Rightarrow> string" where
  "safeDecodeURIComponent decode c = (case decode c of Some d \<Rightarrow> d | None \<Rightarrow> c)"

text \<open>The property key that a key name selects on the \<open>params\<close> object.\<close>

fun show_nat :: "nat \<Rightarrow> string" where
  "show_nat n =
     (if n < 10 then [''0123456789'' ! n]
      else show_nat (n div 10) @ [''0123456789'' ! (n mod 10)])"

declare show_nat.simps [simp del]

fun key_text :: "key_name \<Rightarrow> string" where
  "key_text (KStr s) = s"
| "key_text (KNum n) = show_nat n"

text \<open>
  \<open>Layer.params\<close>. The loop runs over the captures; \<open>paramNames[i]\<close> is \<open>undefined\<close>
  from the end of \<open>paramNames\<close> on, and then nothing is written. A truthy capture is
  decoded, an empty or \<open>undefined\<close> one is stored as it is.
\<close>

type_synonym params = "string \<rightharpoonup> capture"

fun params_loop ::
  "(string \<Rightarrow> string option) \<Rightarrow> key_name list \<Rightarrow> capture list \<Rightarrow> params \<Rightarrow> params" where
  "params_loop decode names [] params = params"
| "params_loop decode [] (c # cs) params = params"
| "params_loop decode (paramName # names) (c # cs) params =
     params_loop decode names cs
       (params(key_text paramName \<mapsto>
          (if str_truthy c then Some (safeDecodeURIComponent decode (the c)) else c)))"

definition layer_params ::
  "(string \<Rightarrow> string option) \<Rightarrow> ('h, 'p) layer \<Rightarrow> string \<Rightarrow> capture list \<Rightarrow> params option \<Rightarrow>
     params" where
  "layer_params decode l path caps existingParams =
     params_loop decode (layer_paramNames l) caps
       (case existingParams of None \<Rightarrow> Map.empty | Some ps \<Rightarrow> ps)"

section \<open>Router\<close>

record router_options =
  ro_methods :: "string list option"
  ro_prefix :: "string option"
  ro_sensitive :: "bool option"
  ro_strict :: "bool option"
  ro_routerPath :: "string option"

record ('h, 'p) router =
  router_opts :: router_options
  router_methods :: "string list"
  router_stack :: "('h, 'p) layer list"
  router_params :: "(string \<times> 'p) list"

definition Router :: "router_options \<Rightarrow> ('h, 'p) router" where
  "Router opts =
     \<lparr>router_opts = opts,
      router_methods = (case ro_methods opts of
         Some ms \<Rightarrow> ms
       | None \<Rightarrow> [''HEAD'', ''OPTIONS'', ''GET'', ''PUT'', ''PATCH'', ''POST'', ''DELETE'']),
      router_stack = [], router_params = []\<rparr>"

text \<open>\<open>Router.match\<close>: one pass over the stack, pushing onto the two result lists.\<close>

record ('h, 'p) matched =
  m_path :: "('h, 'p) layer list"
  m_pathAndMethod :: "('h, 'p) layer list"
  m_route :: bool

fun match_loop ::
  "string \<Rightarrow> string \<Rightarrow> ('h, 'p) matched \<Rightarrow> ('h, 'p) layer list \<Rightarrow> ('h, 'p) matched" where
  "match_loop path method matched [] = matched"
| "match_loop path method matched (layer # rest) =
     (if layer_match layer path then
        (let matched1 = matched\<lparr>m_path := m_path matched @ [layer]\<rparr>
         in if length (layer_methods layer) = 0 \<or> method \<in> set (layer_methods layer) then
              (let matched2 = matched1\<lparr>m_pathAndMethod := m_pathAndMethod matched1 @ [layer]\<rparr>
               in if length (layer_methods layer) > 0
                  then match_loop path method (matched2\<lparr>m_route := True\<rparr>) rest
                  else match_loop path method matched2 rest)
            else match_loop path method matched1 rest)
      else match_loop path method matched rest)"

definition router_match :: "('h, 'p) router \<Rightarrow> string \<Rightarrow> string \<Rightarrow> ('h, 'p) matched" where
  "router_match r path method =
     match_loop path method \<lparr>m_path = [], m_pathAndMethod = [], m_route = False\<rparr> (router_stack r)"

text \<open>\<open>Router.route\<close>: the first layer of the stack with the given name, else \<open>false\<close>.\<close>

fun route_loop :: "string \<Rightarrow> ('h, 'p) layer list \<Rightarrow> ('h, 'p) layer option" where
  "route_loop name [] = None"
| "route_loop name (route # rest) =
     (if layer_name route = Some name then Some route else route_loop name rest)"

definition router_route :: "('h, 'p) router \<Rightarrow> string \<Rightarrow> ('h, 'p) layer option" where
  "router_route r name = route_loop name (router_stack r)"

text \<open>
  \<open>Router.register\<close> for one path: build the layer with the options inherited from the
  router, put the router's prefix in front, apply the router's parameter validators, and
  push the layer on the stack.
\<close>

fun apply_params :: "(string \<times> 'p) list \<Rightarrow> ('h, 'p) layer \<Rightarrow> ('h, 'p) layer" where
  "apply_params [] route = route"
| "apply_params ((p, fn) # rest) route = apply_params rest (param p fn route)"

definition first_defined :: "'a option \<Rightarrow> 'a option \<Rightarrow> 'a \<Rightarrow> 'a" where
  "first_defined a b c = (case a of Some v \<Rightarrow> v | None \<Rightarrow> (case b of Some v \<Rightarrow> v | None \<Rightarrow> c))"

definition register ::
  "'e pathToRegExp \<Rightarrow> ('h, 'p) router \<Rightarrow> route_path \<Rightarrow> string list \<Rightarrow>
   ('h, 'p) middleware list \<Rightarrow> layer_options \<Rightarrow> 'e exn + (('h, 'p) layer \<times> ('h, 'p) router)" where
  "register pathToRegExp r path methods middleware opts =
     (case Layer pathToRegExp path methods middleware
             (Some \<lparr>opt_prefix =
                      Some (first_defined (opt_prefix opts) (ro_prefix (router_opts r)) []),
                    opt_name = opt_name opts,
                    opt_sensitive =
                      Some (first_defined (opt_sensitive opts) (ro_sensitive (router_opts r)) False),
                    opt_strict =
                      Some (first_defined (opt_strict opts) (ro_strict (router_opts r)) False),
                    opt_ignoreCaptures = opt_ignoreCaptures opts,
                    opt_end = Some (if opt_end opts = Some False then False else True)\<rparr>) of
        Inl e \<Rightarrow> Inl e
      | Inr route \<Rightarrow>
          (case (if str_truthy (ro_prefix (router_opts r))
                 then setPrefix pathToRegExp (the (ro_prefix (router_opts r))) route
                 else Inr route) of
             Inl e \<Rightarrow> Inl e
           | Inr route1 \<Rightarrow>
               (let route2 = apply_params (router_params r) route1
                in Inr (route2, r\<lparr>router_stack := router_stack r @ [route2]\<rparr>))))"

text \<open>\<open>Router.param\<close>: record the validator and apply it to every layer of the stack.\<close>

fun set_param :: "(string \<times> 'p) list \<Rightarrow> string \<Rightarrow> 'p \<Rightarrow> (string \<times> 'p) list" where
  "set_param [] k v = [(k, v)]"
| "set_param ((k', v') # kvs) k v =
     (if k' = k then (k, v) # kvs else (k', v') # set_param kvs k v)"

definition router_param :: "string \<Rightarrow> 'p \<Rightarrow> ('h, 'p) router \<Rightarrow> ('h, 'p) router" where
  "router_param p middleware r =
     r\<lparr>router_params := set_param (router_params r) p middleware,
       router_stack := map (param p middleware) (router_stack r)\<rparr>"

section \<open>Dispatch\<close>

text \<open>
  The request context, as far as the router reads and writes it; \<open>ctx_state\<close> is whatever
  else the handlers keep on it. \<open>ctx_matchedRoute\<close> and \<open>ctx_matchedRouteName\<close> are the
  fields \<open>_matchedRoute\<close> and \<open>_matchedRouteName\<close>.
\<close>

record ('h, 'p, 's) request_context =
  ctx_path :: string
  ctx_method :: string
  ctx_routerPath :: "route_path option"
  ctx_matched :: "('h, 'p) layer list option"
  ctx_router :: "('h, 'p) router option"
  ctx_captures :: "capture list option"
  ctx_params :: "params option"
  ctx_routerName :: "string option"
  ctx_matchedRouteName :: "string option"
  ctx_matchedRoute :: "route_path option"
  ctx_status :: "nat option"
  ctx_body :: "string option"
  ctx_headers :: "string \<rightharpoonup> string"
  ctx_state :: 's

text \<open>
  A middleware function takes the context and the continuation \<open>next\<close>; it returns its
  result, or the exception it throws, together with the context as it has left it.
\<close>

type_synonym ('h, 'p, 's, 'e, 'r) continue =
  "('h, 'p, 's) request_context \<Rightarrow> ('e exn + 'r) \<times> ('h, 'p, 's) request_context"

type_synonym ('h, 'p, 's, 'e, 'r) middlewareFunc =
  "('h, 'p, 's) request_context \<Rightarrow> ('h, 'p, 's, 'e, 'r) continue \<Rightarrow>
     ('e exn + 'r) \<times> ('h, 'p, 's) request_context"

text \<open>
  Calling a stack entry. \<open>user\<close> gives the behaviour of the caller's functions and
  \<open>validator\<close> that of the parameter validators; the closure of \<open>Layer.param\<close> calls
  the validator with \<open>ctx.params[param]\<close>.
\<close>

definition call_middleware ::
  "('h \<Rightarrow> ('h, 'p, 's, 'e, 'r) middlewareFunc) \<Rightarrow>
   ('p \<Rightarrow> capture \<Rightarrow> ('h, 'p, 's, 'e, 'r) middlewareFunc) \<Rightarrow>
   ('h, 'p) middleware \<Rightarrow> ('h, 'p, 's, 'e, 'r) middlewareFunc" where
  "call_middleware user validator fn ctx next =
     (case mw_fn fn of
        UserFn h \<Rightarrow> user h ctx next
      | ParamFn p f \<Rightarrow>
          (case ctx_params ctx of
             None \<Rightarrow> (Inl (TypeError ''Cannot read properties of undefined''), ctx)
           | Some ps \<Rightarrow> validator f (case ps p of None \<Rightarrow> None | Some v \<Rightarrow> v) ctx next))"

text \<open>
  Modelled from the spec: \<open>compose\<close> of the package \<open>koa-compose\<close> is not part of the
  repository. It turns a list of handlers into one handler that calls each in order, a
  handler going on to the rest only through its \<open>next\<close>, and the last one going on to
  the \<open>next\<close> of the whole.
\<close>

primrec compose ::
  "('h, 'p, 's, 'e, 'r) middlewareFunc list \<Rightarrow> ('h, 'p, 's, 'e, 'r) middlewareFunc" where
  "compose [] = (\<lambda>ctx next. next ctx)"
| "compose (fn # rest) = (\<lambda>ctx next. fn ctx (\<lambda>ctx'. compose rest ctx' next))"

text \<open>\<open>this.opts.routerPath || ctx.routerPath || ctx.path\<close>\<close>

definition effective_routerPath ::
  "('h, 'p) router \<Rightarrow> ('h, 'p, 's) request_context \<Rightarrow> route_path" where
  "effective_routerPath r ctx =
     (if str_truthy (ro_routerPath (router_opts r))
      then PathString (the (ro_routerPath (router_opts r)))
      else case ctx_routerPath ctx of
             Some p \<Rightarrow> if path_truthy p then p else PathString (ctx_path ctx)
           | None \<Rightarrow> PathString (ctx_path ctx))"

text \<open>
  The chain entry that \<open>routes\<close> pushes for a matched layer. \<open>ctx.routerPath\<close> holds a
  layer's path after an earlier dispatch, so \<open>routerPath\<close> can be a \<open>RegExp\<close>, which has
  no \<open>match\<close> method.
\<close>

definition entry_captures :: "('h, 'p) layer \<Rightarrow> route_path \<Rightarrow> 'e exn + capture list" where
  "entry_captures layer routerPath =
     (case routerPath of
        PathString s \<Rightarrow> Inr (captures layer s)
      | PathRegExp s \<Rightarrow>
          if opt_ignoreCaptures (layer_opts layer) = Some True then Inr []
          else Inl (TypeError ''path.match is not a function''))"

definition enter_layer ::
  "(string \<Rightarrow> string option) \<Rightarrow> ('h, 'p) layer \<Rightarrow> route_path \<Rightarrow> capture list \<Rightarrow>
     ('h, 'p, 's) request_context \<Rightarrow> ('h, 'p, 's) request_context" where
  "enter_layer decode layer routerPath caps ctx =
     (let ctx1 = ctx\<lparr>ctx_captures := Some caps\<rparr>;
          ctx2 = ctx1\<lparr>ctx_params :=
                   Some (layer_params decode layer (path_text routerPath) caps
                           (ctx_params ctx1))\<rparr>;
          ctx3 = ctx2\<lparr>ctx_routerName := layer_name layer,
                      ctx_matchedRouteName := layer_name layer\<rparr>;
          ctx4 = (if \<not> str_truthy (layer_name layer)
                  then ctx3\<lparr>ctx_matchedRouteName := None\<rparr> else ctx3)
      in ctx4\<lparr>ctx_routerPath := Some (layer_path layer),
              ctx_matchedRoute := Some (layer_path layer)\<rparr>)"

definition layer_entry ::
  "(string \<Rightarrow> string option) \<Rightarrow> ('h, 'p) layer \<Rightarrow> route_path \<Rightarrow>
     ('h, 'p, 's, 'e, 'r) middlewareFunc" where
  "layer_entry decode layer routerPath ctx next =
     (case entry_captures layer routerPath of
        Inl e \<Rightarrow> (Inl e, ctx)
      | Inr caps \<Rightarrow> next (enter_layer decode layer routerPath caps ctx))"

text \<open>The \<open>reduce\<close> over the matched layers: push the entry, then concat the stack.\<close>

definition layerChain ::
  "('h \<Rightarrow> ('h, 'p, 's, 'e, 'r) middlewareFunc) \<Rightarrow>
   ('p \<Rightarrow> capture \<Rightarrow> ('h, 'p, 's, 'e, 'r) middlewareFunc) \<Rightarrow>
   (string \<Rightarrow> string option) \<Rightarrow> route_path \<Rightarrow> ('h, 'p) layer list \<Rightarrow>
     ('h, 'p, 's, 'e, 'r) middlewareFunc list" where
  "layerChain user validator decode routerPath matchedLayers =
     foldl (\<lambda>memo layer.
              (memo @ [layer_entry decode layer routerPath])
                @ map (call_middleware user validator) (layer_stack layer))
       [] matchedLayers"

text \<open>The function \<open>dispatch\<close> that \<open>Router.routes\<close> returns.\<close>

definition dispatch ::
  "('h \<Rightarrow> ('h, 'p, 's, 'e, 'r) middlewareFunc) \<Rightarrow>
   ('p \<Rightarrow> capture \<Rightarrow> ('h, 'p, 's, 'e, 'r) middlewareFunc) \<Rightarrow>
   (string \<Rightarrow> string option) \<Rightarrow> ('h, 'p) router \<Rightarrow> ('h, 'p, 's, 'e, 'r) middlewareFunc" where
  "dispatch user validator decode r ctx next =
     (let routerPath = effective_routerPath r ctx;
          matched = router_match r (path_text routerPath) (ctx_method ctx);
          ctx1 = (case ctx_matched ctx of
                    Some ms \<Rightarrow> ctx\<lparr>ctx_matched := Some (ms @ m_path matched)\<rparr>
                  | None \<Rightarrow> ctx\<lparr>ctx_matched := Some (m_path matched)\<rparr>);
          ctx2 = ctx1\<lparr>ctx_router := Some r\<rparr>
      in if \<not> m_route matched then next ctx2
         else compose (layerChain user validator decode routerPath (m_pathAndMethod matched))
                ctx2 next)"

section \<open>The legacy router\<close>

text \<open>
  \<open>lib/router.js\<close> and its layer keep the earlier JavaScript of the router. Its
  \<open>Layer.captures\<close> reads \<open>slice\<close> from the result of \<open>match\<close> without a test for
  \<open>null\<close>.
\<close>

definition legacy_captures :: "('h, 'p) layer \<Rightarrow> route_path \<Rightarrow> 'e exn + capture list" where
  "legacy_captures layer path =
     (if opt_ignoreCaptures (layer_opts layer) = Some True then Inr []
      else case path of
             PathRegExp s \<Rightarrow> Inl (TypeError ''path.match is not a function'')
           | PathString s \<Rightarrow>
               (case layer_regexp layer s of
                  None \<Rightarrow> Inl (TypeError ''Cannot read properties of null'')
                | Some m \<Rightarrow> Inr (drop 1 m)))"

text \<open>
  The chain entry of the legacy \<open>routes\<close> for a matched layer: it sets the captures, the
  parameters, \<open>routerName\<close> and \<open>routerPath\<close>. The legacy layer keeps its name as
  \<open>opts.name || null\<close>, so an empty name reads as none.
\<close>

definition legacy_enter_layer ::
  "(string \<Rightarrow> string option) \<Rightarrow> ('h, 'p) layer \<Rightarrow> route_path \<Rightarrow> capture list \<Rightarrow>
     ('h, 'p, 's) request_context \<Rightarrow> ('h, 'p, 's) request_context" where
  "legacy_enter_layer decode layer path caps ctx =
     (let ctx1 = ctx\<lparr>ctx_captures := Some caps\<rparr>;
          ctx2 = ctx1\<lparr>ctx_params :=
                   Some (layer_params decode layer (path_text path) caps (ctx_params ctx1))\<rparr>;
          ctx3 = ctx2\<lparr>ctx_routerName :=
                   (if str_truthy (layer_name layer) then layer_name layer else None)\<rparr>
      in ctx3\<lparr>ctx_routerPath := Some (layer_path layer)\<rparr>)"

definition legacy_layer_entry ::
  "(string \<Rightarrow> string option) \<Rightarrow> ('h, 'p) layer \<Rightarrow> route_path \<Rightarrow>
     ('h, 'p, 's, 'e, 'r) middlewareFunc" where
  "legacy_layer_entry decode layer path ctx next =
     (case legacy_captures layer path of
        Inl e \<Rightarrow> (Inl e, ctx)
      | Inr caps \<Rightarrow> next (legacy_enter_layer decode layer path caps ctx))"

definition legacy_layerChain ::
  "('h \<Rightarrow> ('h, 'p, 's, 'e, 'r) middlewareFunc) \<Rightarrow>
   ('p \<Rightarrow> capture \<Rightarrow> ('h, 'p, 's, 'e, 'r) middlewareFunc) \<Rightarrow>
   (string \<Rightarrow> string option) \<Rightarrow> route_path \<Rightarrow> ('h, 'p) layer list \<Rightarrow>
     ('h, 'p, 's, 'e, 'r) middlewareFunc list" where
  "legacy_layerChain user validator decode path matchedLayers =
     foldl (\<lambda>memo layer.
              (memo @ [legacy_layer_entry decode layer path])
                @ map (call_middleware user validator) (layer_stack layer))
       [] matchedLayers"

text \<open>
  The function \<open>dispatch\<close> of the legacy \<open>routes\<close>. Before it builds the chain it takes
  the last of the matched layers and sets \<open>_matchedRoute\<close> to its path and, when that
  layer has a name, \<open>_matchedRouteName\<close> to its name.
\<close>

definition legacy_dispatch ::
  "('h \<Rightarrow> ('h, 'p, 's, 'e, 'r) middlewareFunc) \<Rightarrow>
   ('p \<Rightarrow> capture \<Rightarrow> ('h, 'p, 's, 'e, 'r) middlewareFunc) \<Rightarrow>
   (string \<Rightarrow> string option) \<Rightarrow> ('h, 'p) router \<Rightarrow> ('h, 'p, 's, 'e, 'r) middlewareFunc" where
  "legacy_dispatch user validator decode router ctx next =
     (let path = effective_routerPath router ctx;
          matched = router_match router (path_text path) (ctx_method ctx);
          ctx1 = (case ctx_matched ctx of
                    Some ms \<Rightarrow> ctx\<lparr>ctx_matched := Some (ms @ m_path matched)\<rparr>
                  | None \<Rightarrow> ctx\<lparr>ctx_matched := Some (m_path matched)\<rparr>);
          ctx2 = ctx1\<lparr>ctx_router := Some router\<rparr>
      in if \<not> m_route matched then next ctx2
         else
           (let matchedLayers = m_pathAndMethod matched
            in if matchedLayers = []
               then (Inl (TypeError ''Cannot read properties of undefined''), ctx2)
               else
                 (let mostSpecificLayer = matchedLayers ! (length matchedLayers - 1);
                      ctx3 = ctx2\<lparr>ctx_matchedRoute := Some (layer_path mostSpecificLayer)\<rparr>;
                      ctx4 = (if str_truthy (layer_name mostSpecificLayer)
                              then ctx3\<lparr>ctx_matchedRouteName := layer_name mostSpecificLayer\<rparr>
                              else ctx3)
                  in compose (legacy_layerChain user validator decode path matchedLayers)
                       ctx4 next)))"

section \<open>allowedMethods\<close>

text \<open>
  The options of \<open>allowedMethods\<close>. A factory \<open>notImplemented\<close> or
  \<open>methodNotAllowed\<close> is kept as the error object it returns, \<open>None\<close> when the option
  is not a function.
\<close>

record 'e allowed_options =
  ao_throw :: "bool option"
  ao_notImplemented :: "'e option"
  ao_methodNotAllowed :: "'e option"

text \<open>
  The object \<open>allowed\<close> is kept as the list of its keys. Method names are HTTP tokens, for
  which \<open>Object.keys\<close> lists the keys in the order of their first assignment;
  \<open>allowed[method]\<close> is the method name itself, truthy unless empty.
\<close>

definition set_allowed :: "string list \<Rightarrow> string \<Rightarrow> string list" where
  "set_allowed allowed method = (if method \<in> set allowed then allowed else allowed @ [method])"

definition collect_allowed :: "('h, 'p) layer list \<Rightarrow> string list" where
  "collect_allowed matched =
     foldl (\<lambda>allowed route. foldl set_allowed allowed (layer_methods route)) [] matched"

definition allowed_truthy :: "string list \<Rightarrow> string \<Rightarrow> bool" where
  "allowed_truthy allowed method = (method \<in> set allowed \<and> method \<noteq> [])"

definition allowedMethods ::
  "('h, 'p) router \<Rightarrow> 'e allowed_options option \<Rightarrow> ('h, 'p, 's) request_context \<Rightarrow>
   ('h, 'p, 's, 'e, 'r) continue \<Rightarrow> ('e exn + unit) \<times> ('h, 'p, 's) request_context" where
  "allowedMethods r options ctx0 next =
     (let implemented = router_methods r;
          throw = (case options of None \<Rightarrow> False | Some opts \<Rightarrow> ao_throw opts = Some True)
      in case next ctx0 of
           (Inl e, ctx) \<Rightarrow> (Inl e, ctx)
         | (Inr v, ctx) \<Rightarrow>
             if (case ctx_status ctx of None \<Rightarrow> False | Some st \<Rightarrow> st \<noteq> 0 \<and> st \<noteq> 404)
             then (Inr (), ctx)
             else
               (case ctx_matched ctx of
                  None \<Rightarrow> (Inl (TypeError ''Cannot read properties of undefined''), ctx)
                | Some matched \<Rightarrow>
                    (let allowed = collect_allowed matched;
                         allowedMethods = allowed
                     in if ctx_method ctx \<notin> set implemented then
                          (if throw then
                             (case Option.bind options ao_notImplemented of
                                Some e \<Rightarrow> (Inl (Custom e), ctx)
                              | None \<Rightarrow> (Inl NotImplemented, ctx))
                           else
                             (Inr (), ctx\<lparr>ctx_status := Some 501,
                                ctx_headers := (ctx_headers ctx)
                                  (''Allow'' \<mapsto> join '', '' allowedMethods)\<rparr>))
                        else if length allowedMethods > 0 then
                          (if ctx_method ctx = ''OPTIONS'' then
                             (Inr (), ctx\<lparr>ctx_status := Some 200, ctx_body := Some [],
                                ctx_headers := (ctx_headers ctx)
                                  (''Allow'' \<mapsto> join '', '' allowedMethods)\<rparr>)
                           else if \<not> allowed_truthy allowed (ctx_method ctx) then
                             (if throw then
                                (case Option.bind options ao_methodNotAllowed of
                                   Some e \<Rightarrow> (Inl (Custom e), ctx)
                                 | None \<Rightarrow> (Inl MethodNotAllowed, ctx))
                              else
                                (Inr (), ctx\<lparr>ctx_status := Some 405,
                                   ctx_headers := (ctx_headers ctx)
                                     (''Allow'' \<mapsto> join '', '' allowedMethods)\<rparr>))
                           else (Inr (), ctx))
                        else (Inr (), ctx))))"

section \<open>URL generation\<close>

text \<open>
  The values that the \<open>url\<close> functions take. A number is kept as its decimal text, an
  object as the list of its own properties, a function as the text that \<open>String\<close>
  gives for it.
\<close>

datatype jsval =
    Undefined
  | Null
  | Str string
  | Num string
  | Obj "(string \<times> jsval) list"
  | Arr "jsval list"
  | Fun string

fun is_object :: "jsval \<Rightarrow> bool" where
  "is_object Null = True"
| "is_object (Obj kvs) = True"
| "is_object (Arr vs) = True"
| "is_object v = False"

fun js_truthy :: "jsval \<Rightarrow> bool" where
  "js_truthy Undefined = False"
| "js_truthy Null = False"
| "js_truthy (Str s) = (s \<noteq> [])"
| "js_truthy (Num s) = (s \<noteq> ''0'' \<and> s \<noteq> ''NaN'')"
| "js_truthy (Obj kvs) = True"
| "js_truthy (Arr vs) = True"
| "js_truthy (Fun text) = True"

text \<open>\<open>String(v)\<close>\<close>

fun js_String :: "jsval \<Rightarrow> string" where
  "js_String Undefined = ''undefined''"
| "js_String Null = ''null''"
| "js_String (Str s) = s"
| "js_String (Num s) = s"
| "js_String (Obj kvs) = ''[object Object]''"
| "js_String (Arr vs) =
     join '','' (map (\<lambda>v. if v = Undefined \<or> v = Null then [] else js_String v) vs)"
| "js_String (Fun text) = text"

text \<open>Reading a property: \<open>undefined\<close> when it is absent or the value has no properties.\<close>

fun get_prop :: "jsval \<Rightarrow> string \<Rightarrow> jsval" where
  "get_prop (Obj kvs) k = (case map_of kvs k of Some v \<Rightarrow> v | None \<Rightarrow> Undefined)"
| "get_prop v k = Undefined"

text \<open>Writing a property keeps the place of a key that is already there.\<close>

fun set_prop :: "(string \<times> jsval) list \<Rightarrow> string \<Rightarrow> jsval \<Rightarrow> (string \<times> jsval) list" where
  "set_prop [] k v = [(k, v)]"
| "set_prop ((k', v') # kvs) k v =
     (if k' = k then (k, v) # kvs else (k', v') # set_prop kvs k v)"

text \<open>
  A token of \<open>pathToRegExp.parse\<close>: a literal piece of the path, or a key with its name
  and the prefix that goes in front of its value.
\<close>

datatype token = TString string | TKey key_name string

fun token_named :: "token \<Rightarrow> bool" where
  "token_named (TString s) = False"
| "token_named (TKey (KStr n) prefix) = (n \<noteq> [])"
| "token_named (TKey (KNum n) prefix) = (n \<noteq> 0)"

text \<open>
  Modelled from the spec: \<open>pathToRegExp.compile\<close> of the package \<open>path-to-regexp\<close> is
  not part of the repository. Its reverse function \<open>render(values)\<close> substitutes the
  parameter placeholders with string-encoded values and leaves a placeholder as the
  literal \<open>:name\<close> when its value is missing.
\<close>

definition render_token :: "(string \<Rightarrow> string) \<Rightarrow> jsval \<Rightarrow> token \<Rightarrow> string" where
  "render_token encode values t =
     (case t of
        TString s \<Rightarrow> s
      | TKey name prefix \<Rightarrow>
          (let v = get_prop values (key_text name)
           in if v = Undefined \<or> v = Null then prefix @ '':'' @ key_text name
              else prefix @ encode (js_String v)))"

definition render :: "(string \<Rightarrow> string) \<Rightarrow> token list \<Rightarrow> jsval \<Rightarrow> string" where
  "render encode tokens values = concat (map (render_token encode values) tokens)"

text \<open>
  Modelled from the spec: the function that \<open>pathToRegExp.compile\<close> returns for a
  path is \<open>render\<close> over the tokens of that path; neither step throws.
\<close>

definition spec_compile ::
  "(string \<Rightarrow> string) \<Rightarrow> (string \<Rightarrow> token list) \<Rightarrow> string \<Rightarrow>
     'e exn + (jsval \<Rightarrow> 'e exn + string)" where
  "spec_compile encode parse url = Inr (\<lambda>values. Inr (render encode (parse url) values))"

text \<open>\<open>path.replace(/\(\.\*\)/g, '')\<close>\<close>

fun strip_wildcards :: "string \<Rightarrow> string" where
  "strip_wildcards (a # b # c # d # rest) =
     (if [a, b, c, d] = ''(.*)'' then strip_wildcards rest
      else a # strip_wildcards (b # c # d # rest))"
| "strip_wildcards s = s"

text \<open>The loop of \<open>Layer.url\<close> that gives the positional arguments to the named tokens.\<close>

fun assign_args ::
  "token list \<Rightarrow> jsval list \<Rightarrow> (string \<times> jsval) list \<Rightarrow> (string \<times> jsval) list" where
  "assign_args [] args replace = replace"
| "assign_args (t # tokens) args replace =
     (case t of
        TKey name prefix \<Rightarrow>
          if token_named t
          then assign_args tokens (drop 1 args)
                 (set_prop replace (key_text name)
                    (case args of [] \<Rightarrow> Undefined | a # rest \<Rightarrow> a))
          else assign_args tokens args replace
      | TString s \<Rightarrow> assign_args tokens args replace)"

text \<open>
  \<open>Layer.url\<close>. \<open>parse\<close> and \<open>compile\<close> are those of \<open>path-to-regexp\<close> and
  \<open>search\<close> is \<open>URI(replaced).search(query).toString()\<close> of \<open>urijs\<close>; a \<open>RegExp\<close>
  path has no \<open>replace\<close> method.
\<close>

definition layer_url ::
  "(string \<Rightarrow> token list) \<Rightarrow> (string \<Rightarrow> 'e exn + (jsval \<Rightarrow> 'e exn + string)) \<Rightarrow>
   (string \<Rightarrow> jsval \<Rightarrow> string) \<Rightarrow> ('h, 'p) layer \<Rightarrow> jsval \<Rightarrow> jsval list \<Rightarrow> 'e exn + string" where
  "layer_url parse compile search l params paramsOrOptions =
     (case layer_path l of
        PathRegExp re \<Rightarrow> Inl (TypeError ''this.path.replace is not a function'')
      | PathString path \<Rightarrow>
          (let url = strip_wildcards path
           in case compile url of
                Inl e \<Rightarrow> Inl e
              | Inr toPath \<Rightarrow>
                  (case
                     (if params \<noteq> Undefined \<and> \<not> is_object params then
                        (let args = params # paramsOrOptions;
                             lastIndex = length args - 1
                         in if is_object (args ! lastIndex)
                            then Inr (Arr (take lastIndex args), Some (args ! lastIndex))
                            else Inr (Arr args, None))
                      else if is_object params then
                        (case paramsOrOptions of
                           [] \<Rightarrow> Inr (params, None)
                         | first # others \<Rightarrow>
                             if is_object first then
                               (case first of
                                  Null \<Rightarrow>
                                    Inl (TypeError
                                      ''Cannot use the in operator to search for query in null'')
                                | Obj kvs \<Rightarrow>
                                    if ''query'' \<in> fst ` set kvs then Inr (params, Some first)
                                    else Inr (params, None)
                                | other \<Rightarrow> Inr (params, None))
                             else Inr (params, None))
                      else Inr (params, None)) of
                     Inl e \<Rightarrow> Inl e
                   | Inr (args, options) \<Rightarrow>
                       (let tokens = parse url;
                            (replace, options') =
                              (case args of
                                 Arr as \<Rightarrow> (Obj (assign_args tokens as []), options)
                               | other \<Rightarrow>
                                   if list_ex token_named tokens then (params, options)
                                   else (Obj [], Some params))
                        in case toPath replace of
                             Inl e \<Rightarrow> Inl e
                           | Inr replaced \<Rightarrow>
                               (case options' of
                                  None \<Rightarrow> Inr replaced
                                | Some opts \<Rightarrow>
                                    if js_truthy (get_prop opts ''query'')
                                    then Inr (search replaced (get_prop opts ''query''))
                                    else Inr replaced)))))"

text \<open>
  \<open>Router.url\<close> returns a string or an \<open>Error\<close> object: the object is a value of the
  result, not a thrown exception.
\<close>

datatype url_result = UrlString string | ErrorObject string

definition router_url ::
  "(string \<Rightarrow> token list) \<Rightarrow> (string \<Rightarrow> 'e exn + (jsval \<Rightarrow> 'e exn + string)) \<Rightarrow>
   (string \<Rightarrow> jsval \<Rightarrow> string) \<Rightarrow> ('h, 'p) router \<Rightarrow> string \<Rightarrow> jsval \<Rightarrow> jsval list \<Rightarrow>
     'e exn + url_result" where
  "router_url parse compile search r name params paramsOrOptions =
     (case router_route r name of
        Some route \<Rightarrow>
          (case layer_url parse compile search route params paramsOrOptions of
             Inl e \<Rightarrow> Inl e
           | Inr url \<Rightarrow> Inr (UrlString url))
      | None \<Rightarrow> Inr (ErrorObject (''No route found for name: '' @ name)))"

section \<open>EggRouter.url\<close>

text \<open>The character classes of the expression \<open>/:([a-zA-Z_]\w*)/g\<close>.\<close>

definition ident_start :: "char \<Rightarrow> bool" where
  "ident_start c =
     (c \<in> set ''abcdefghijklmnopqrstuvwxyzABCDEFGHIJKLMNOPQRSTUVWXYZ_'')"

definition word_char :: "char \<Rightarrow> bool" where
  "word_char c =
     (c \<in> set ''abcdefghijklmnopqrstuvwxyzABCDEFGHIJKLMNOPQRSTUVWXYZ0123456789_'')"

text \<open>
  The value that takes the place of a parameter, and the query entries of a key:
  \<open>safeEncodeURIComponent\<close> of the package \<open>utility\<close> is the parameter \<open>encode\<close>.
\<close>

definition param_text :: "(string \<Rightarrow> string) \<Rightarrow> jsval \<Rightarrow> string" where
  "param_text encode values =
     encode (case values of
               Arr vs \<Rightarrow> js_String (case vs of [] \<Rightarrow> Undefined | v # rest \<Rightarrow> v)
             | other \<Rightarrow> js_String values)"

text \<open>
  The record \<open>args\<close> is an ordinary object, so next to its own properties it has
  those of \<open>Object.prototype\<close>: the built-in methods, and \<open>__proto__\<close>, which
  reads as \<open>Object.prototype\<close> itself. \<open>key in args\<close> holds for both kinds, and
  \<open>args[key]\<close> reads both; only the own properties are enumerated by \<open>for in\<close>.
\<close>

definition native :: "string \<Rightarrow> jsval" where
  "native name = Fun (''function '' @ name @ ''() { [native code] }'')"

definition object_prototype :: "(string \<times> jsval) list" where
  "object_prototype =
     [(''constructor'', native ''Object''),
      (''__defineGetter__'', native ''__defineGetter__''),
      (''__defineSetter__'', native ''__defineSetter__''),
      (''hasOwnProperty'', native ''hasOwnProperty''),
      (''__lookupGetter__'', native ''__lookupGetter__''),
      (''__lookupSetter__'', native ''__lookupSetter__''),
      (''isPrototypeOf'', native ''isPrototypeOf''),
      (''propertyIsEnumerable'', native ''propertyIsEnumerable''),
      (''toString'', native ''toString''),
      (''valueOf'', native ''valueOf''),
      (''__proto__'', Obj []),
      (''toLocaleString'', native ''toLocaleString'')]"

definition has_property :: "(string \<times> jsval) list \<Rightarrow> string \<Rightarrow> bool" where
  "has_property args key = (map_of args key \<noteq> None \<or> map_of object_prototype key \<noteq> None)"

definition read_property :: "(string \<times> jsval) list \<Rightarrow> string \<Rightarrow> jsval" where
  "read_property args key =
     (case map_of args key of
        Some v \<Rightarrow> v
      | None \<Rightarrow> (case map_of object_prototype key of Some v \<Rightarrow> v | None \<Rightarrow> Undefined))"

text \<open>
  \<open>url.replace(/:([a-zA-Z_]\w*)/g, callback)\<close>: the matches are taken from left to right,
  each as long as it can be; a key that is \<open>in args\<close> is replaced and recorded in
  \<open>replacedParams\<close>, any other match is put back as it stands.
\<close>

function replace_params ::
  "(string \<Rightarrow> string) \<Rightarrow> (string \<times> jsval) list \<Rightarrow> string \<Rightarrow> string \<times> string list" where
  "replace_params encode args [] = ([], [])"
| "replace_params encode args (c # cs) =
     (if c = CHR '':'' \<and> cs \<noteq> [] \<and> ident_start (hd cs) then
        (let key = takeWhile word_char cs;
             (out, replacedParams) = replace_params encode args (dropWhile word_char cs)
         in if has_property args key
            then (param_text encode (read_property args key) @ out, key # replacedParams)
            else (CHR '':'' # key @ out, replacedParams))
      else (let (out, replacedParams) = replace_params encode args cs
            in (c # out, replacedParams)))"
  by pat_completeness auto
termination
  by (relation "measure (\<lambda>(encode, args, s). length s)")
     (auto simp: less_Suc_eq_le length_dropWhile_le)

text \<open>The loop over the keys of \<open>args\<close> that builds \<open>queries\<close>.\<close>

fun query_entries ::
  "(string \<Rightarrow> string) \<Rightarrow> string list \<Rightarrow> (string \<times> jsval) list \<Rightarrow> string list" where
  "query_entries encode replacedParams [] = []"
| "query_entries encode replacedParams ((key, values) # rest) =
     (if key \<in> set replacedParams then query_entries encode replacedParams rest
      else (case values of
              Arr vs \<Rightarrow> map (\<lambda>val. encode key @ ''='' @ encode (js_String val)) vs
            | other \<Rightarrow> [encode key @ ''='' @ encode (js_String values)])
           @ query_entries encode replacedParams rest)"

text \<open>
  \<open>EggRouter.url\<close>: the empty string for an unknown name, an assertion failure for a
  \<open>RegExp\<close> path; \<open>params\<close> is a record of values or \<open>undefined\<close>.
\<close>

definition egg_url ::
  "(string \<Rightarrow> string) \<Rightarrow> ('h, 'p) router \<Rightarrow> string \<Rightarrow> (string \<times> jsval) list option \<Rightarrow>
     'e exn + string" where
  "egg_url encode r name params =
     (case router_route r name of
        None \<Rightarrow> Inr []
      | Some route \<Rightarrow>
          (case layer_path route of
             PathRegExp re \<Rightarrow>
               Inl (AssertionError (''Can't get the url for regExp '' @ re @ '' for by name ''
                      @ [CHR 0x27] @ name @ [CHR 0x27]))
           | PathString path \<Rightarrow>
               (let (url, queries) =
                      (case params of
                         None \<Rightarrow> (path, [])
                       | Some args \<Rightarrow>
                           (let (url', replacedParams) = replace_params encode args path
                            in (url', query_entries encode replacedParams args)))
                in if length queries > 0 then
                     (let queryStr = join ''&'' queries
                      in if CHR ''?'' \<notin> set url then Inr (url @ ''?'' @ queryStr)
                         else Inr (url @ ''&'' @ queryStr))
                   else Inr url)))"

text \<open>
  The pieces of a path as \<open>EggRouter.url\<close> reads it: the placeholders \<open>:name\<close>, a
  colon and the longest identifier after it, and the single characters between them.
\<close>

function segments :: "string \<Rightarrow> token list" where
  "segments [] = []"
| "segments (c # cs) =
     (if c = CHR '':'' \<and> cs \<noteq> [] \<and> ident_start (hd cs)
      then TKey (KStr (takeWhile word_char cs)) [] # segments (dropWhile word_char cs)
      else TString [c] # segments cs)"
  by pat_completeness auto
termination
  by (relation "measure length") (auto simp: less_Suc_eq_le length_dropWhile_le)

section \<open>Example routers\<close>

text \<open>
  A compiler for the two kinds of pattern that the examples use: a pattern that ends in
  \<open>(.*)\<close> matches every path that starts with what stands before it and captures the
  rest under the key \<open>0\<close>; any other pattern matches itself only.
\<close>

definition example_pathToRegExp :: "nat pathToRegExp" where
  "example_pathToRegExp path opts =
     (let p = path_text path; n = length p - 4
      in if 4 \<le> length p \<and> drop n p = ''(.*)''
         then Inr ((\<lambda>s. if take n s = take n p then Some [Some s, Some (drop n s)] else None),
                   [KNum 0])
         else Inr ((\<lambda>s. if s = p then Some [Some s] else None), []))"

definition handler :: "nat \<Rightarrow> (nat, nat) middleware" where
  "handler h = \<lparr>mw_fn = UserFn h, mw_type = PlainFunction, mw_param = None\<rparr>"

definition example_layer ::
  "string \<Rightarrow> string list \<Rightarrow> (nat, nat) middleware list \<Rightarrow> (nat, nat) layer" where
  "example_layer path methods middlewares =
     \<lparr>layer_opts = no_options\<lparr>opt_prefix := Some []\<rparr>, layer_name = None,
      layer_methods = add_methods [] methods, layer_stack = middlewares,
      layer_path = PathString path,
      layer_regexp = fst (projr (example_pathToRegExp (PathString path) no_options)),
      layer_paramNames = snd (projr (example_pathToRegExp (PathString path) no_options))\<rparr>"

text \<open>The layers \<open>/user/(.*)\<close>, \<open>/app/(.*)\<close> and \<open>(.*)\<close>, registered in this order.\<close>

definition example_router :: "(nat, nat) router" where
  "example_router =
     (Router \<lparr>ro_methods = None, ro_prefix = None, ro_sensitive = None, ro_strict = None,
        ro_routerPath = None\<rparr>)
     \<lparr>router_stack :=
        [example_layer ''/user/(.*)'' [''get''] [handler 1],
         example_layer ''/app/(.*)'' [''get''] [handler 2],
         example_layer ''(.*)'' [] [handler 3]]\<rparr>"

text \<open>A layer for \<open>/users/:id\<close> with two paths that it matches.\<close>

definition users_layer :: "(nat, nat) layer" where
  "users_layer =
     \<lparr>layer_opts = no_options\<lparr>opt_prefix := Some []\<rparr>, layer_name = Some ''user'',
      layer_methods = [''HEAD'', ''GET''], layer_stack = [handler 0],
      layer_path = PathString ''/users/:id'',
      layer_regexp = (\<lambda>s. if s = ''/users/a%20b'' then Some [Some s, Some ''a%20b'']
                          else if s = ''/users/%E0'' then Some [Some s, Some ''%E0'']
                          else None),
      layer_paramNames = [KStr ''id'']\<rparr>"

text \<open>
  A layer for \<open>/:a/:b/:c/:d\<close> with one handler, and the four validators of its
  parameters in the order \<open>d\<close>, \<open>c\<close>, \<open>a\<close>, \<open>b\<close> of their registration.
\<close>

definition abcd_layer :: "(nat, nat) layer" where
  "abcd_layer =
     \<lparr>layer_opts = no_options\<lparr>opt_prefix := Some []\<rparr>, layer_name = None,
      layer_methods = [''HEAD'', ''GET''], layer_stack = [handler 0],
      layer_path = PathString ''/:a/:b/:c/:d'',
      layer_regexp = (\<lambda>s. if s = ''/1/2/3/4''
                          then Some [Some s, Some ''1'', Some ''2'', Some ''3'', Some ''4'']
                          else None),
      layer_paramNames = [KStr ''a'', KStr ''b'', KStr ''c'', KStr ''d'']\<rparr>"

definition dcab :: "(string \<times> nat) list" where
  "dcab = [(''d'', 4), (''c'', 3), (''a'', 1), (''b'', 2)]"

text \<open>
  Two named routes that both match \<open>/users/1\<close>, after the router's test
  \<open>routerName and routerPath work with next\<close>. The handlers write the values of
  \<open>_matchedRoute\<close> and \<open>_matchedRouteName\<close> that they see to the state and go on.
\<close>

definition named_layer :: "string \<Rightarrow> string \<Rightarrow> regexp \<Rightarrow> key_name list \<Rightarrow> nat \<Rightarrow> (nat, nat) layer" where
  "named_layer name path re keys h =
     \<lparr>layer_opts = no_options\<lparr>opt_prefix := Some [], opt_name := Some name\<rparr>,
      layer_name = Some name, layer_methods = [''HEAD'', ''GET''], layer_stack = [handler h],
      layer_path = PathString path, layer_regexp = re, layer_paramNames = keys\<rparr>"

definition two_routes :: "(nat, nat) router" where
  "two_routes =
     (Router \<lparr>ro_methods = None, ro_prefix = None, ro_sensitive = None, ro_strict = None,
        ro_routerPath = None\<rparr>)
     \<lparr>router_stack :=
        [named_layer ''name1'' ''/users/1''
           (\<lambda>s. if s = ''/users/1'' then Some [Some s] else None) [] 1,
         named_layer ''name2'' ''/users/:id''
           (\<lambda>s. if take 7 s = ''/users/'' \<and> CHR ''/'' \<notin> set (drop 7 s) \<and> drop 7 s \<noteq> []
                then Some [Some s, Some (drop 7 s)] else None) [KStr ''id''] 2]\<rparr>"

type_synonym seen = "(route_path option \<times> string option) list"

definition request :: "string \<Rightarrow> string \<Rightarrow> (nat, nat, seen) request_context" where
  "request path method =
     \<lparr>ctx_path = path, ctx_method = method, ctx_routerPath = None, ctx_matched = None,
      ctx_router = None, ctx_captures = None, ctx_params = None, ctx_routerName = None,
      ctx_matchedRouteName = None, ctx_matchedRoute = None, ctx_status = None,
      ctx_body = None, ctx_headers = Map.empty, ctx_state = []\<rparr>"

definition observing :: "nat \<Rightarrow> (nat, nat, seen, nat, unit) middlewareFunc" where
  "observing h ctx next =
     next (ctx\<lparr>ctx_state := ctx_state ctx @ [(ctx_matchedRoute ctx, ctx_matchedRouteName ctx)]\<rparr>)"

definition passing :: "nat \<Rightarrow> capture \<Rightarrow> (nat, nat, seen, nat, unit) middlewareFunc" where
  "passing f v ctx next = next ctx"

definition finish :: "(nat, nat, seen, nat, unit) continue" where
  "finish ctx = (Inr (), ctx)"

definition example_decode :: "string \<Rightarrow> string option" where
  "example_decode s =
     (if s = ''%E0'' then None else if s = ''a%20b'' then Some ''a b'' else Some s)"

text \<open>
  A request to \<open>/users\<close> that has matched, by path, a layer for \<open>GET\<close> and a layer
  for \<open>PUT\<close>, and the option \<open>throw\<close> of \<open>allowedMethods\<close>.
\<close>

definition users_request :: "string \<Rightarrow> (nat, nat, seen) request_context" where
  "users_request method =
     (request ''/users'' method)
       \<lparr>ctx_matched := Some [example_layer ''/users'' [''get''] [handler 1],
                              example_layer ''/users'' [''put''] [handler 2]]\<rparr>"

definition throwing :: "nat allowed_options" where
  "throwing = \<lparr>ao_throw = Some True, ao_notImplemented = None, ao_methodNotAllowed = None\<rparr>"

text \<open>
  A router with the named route \<open>user\<close> for \<open>/users/:id\<close>, the tokens of that path,
  and stand-ins for the encoder and for \<open>urijs\<close>.
\<close>

definition users_router :: "(nat, nat) router" where
  "users_router =
     (Router \<lparr>ro_methods = None, ro_prefix = None, ro_sensitive = None, ro_strict = None,
        ro_routerPath = None\<rparr>)\<lparr>router_stack := [users_layer]\<rparr>"

definition example_parse :: "string \<Rightarrow> token list" where
  "example_parse url =
     (if url = ''/users/:id'' then [TString ''/users'', TKey (KStr ''id'') ''/'']
      else [TString url])"

text \<open>
  The encoder on byte strings, as \<open>encodeURIComponent\<close> has it: letters, digits and
  the marks \<open>-_.!~*'()\<close> stay, every other byte becomes \<open>%\<close> and two hex digits.
\<close>

definition unreserved :: "char \<Rightarrow> bool" where
  "unreserved c =
     (c \<in> set ''ABCDEFGHIJKLMNOPQRSTUVWXYZabcdefghijklmnopqrstuvwxyz0123456789-_.!~*()''
      \<or> c = CHR 0x27)"

definition percent :: "char \<Rightarrow> string" where
  "percent c =
     (let n = (of_char c :: nat)
      in [CHR ''%'', ''0123456789ABCDEF'' ! (n div 16), ''0123456789ABCDEF'' ! (n mod 16)])"

definition example_encode :: "string \<Rightarrow> string" where
  "example_encode s = concat (map (\<lambda>c. if unreserved c then [c] else percent c) s)"

text \<open>
  The reverse function as version 1 of \<open>path-to-regexp\<close> builds it, the version that
  \<open>package.json\<close> asks for, for the required keys that \<open>:name\<close> gives: a key
  without a value throws.
\<close>

fun strict_render :: "(string \<Rightarrow> string) \<Rightarrow> jsval \<Rightarrow> token list \<Rightarrow> 'e exn + string" where
  "strict_render encode values [] = Inr []"
| "strict_render encode values (TString s # tokens) =
     (case strict_render encode values tokens of
        Inl e \<Rightarrow> Inl e
      | Inr rest \<Rightarrow> Inr (s @ rest))"
| "strict_render encode values (TKey name prefix # tokens) =
     (let v = get_prop values (key_text name)
      in if v = Undefined \<or> v = Null
         then Inl (TypeError (''Expected '' @ [CHR 0x22] @ key_text name @ [CHR 0x22]
                     @ '' to be defined''))
         else case strict_render encode values tokens of
                Inl e \<Rightarrow> Inl e
              | Inr rest \<Rightarrow> Inr (prefix @ encode (js_String v) @ rest))"

definition strict_compile ::
  "(string \<Rightarrow> string) \<Rightarrow> (string \<Rightarrow> token list) \<Rightarrow> string \<Rightarrow>
     'e exn + (jsval \<Rightarrow> 'e exn + string)" where
  "strict_compile encode parse url = Inr (\<lambda>values. strict_render encode values (parse url))"

text \<open>A router with the named route \<open>c\<close> for \<open>/x/:constructor\<close>.\<close>

definition constructor_router :: "(nat, nat) router" where
  "constructor_router =
     (Router \<lparr>ro_methods = None, ro_prefix = None, ro_sensitive = None, ro_strict = None,
        ro_routerPath = None\<rparr>)
     \<lparr>router_stack :=
        [named_layer ''c'' ''/x/:constructor''
           (\<lambda>s. if take 3 s = ''/x/'' \<and> CHR ''/'' \<notin> set (drop 3 s) \<and> drop 3 s \<noteq> []
                then Some [Some s, Some (drop 3 s)] else None) [KStr ''constructor''] 1]\<rparr>"

definition example_search :: "string \<Rightarrow> jsval \<Rightarrow> string" where
  "example_search url query = url @ ''?'' @ js_String query"

section \<open>Method normalisation\<close>

lemma add_methods_set:
  "set (add_methods acc ms) =
     set acc \<union> toUpperCase ` set ms \<union>
     (if \<exists>m\<in>set ms. toUpperCase m = ''GET'' then {''HEAD''} else {})"
  by (induction ms arbitrary: acc) (auto simp: Let_def)

lemma add_methods_hd:
  "acc \<noteq> [] \<Longrightarrow> hd acc = ''HEAD'' \<Longrightarrow>
     add_methods acc ms \<noteq> [] \<and> hd (add_methods acc ms) = ''HEAD''"
  by (induction ms arbitrary: acc) (auto simp: Let_def)

lemma add_methods_get_head:
  "\<exists>m\<in>set ms. toUpperCase m = ''GET'' \<Longrightarrow>
     add_methods acc ms \<noteq> [] \<and> hd (add_methods acc ms) = ''HEAD''"
proof (induction ms arbitrary: acc)
  case Nil
  then show ?case by simp
next
  case (Cons m ms)
  show ?case
  proof (cases "toUpperCase m = ''GET''")
    case True
    then show ?thesis
      using add_methods_hd [of "''HEAD'' # acc @ [''GET'']" ms] by (simp add: Let_def)
  next
    case False
    then have "\<exists>m\<in>set ms. toUpperCase m = ''GET''"
      using Cons.prems by auto
    then show ?thesis
      using Cons.IH [of "acc @ [toUpperCase m]"] False by (simp add: Let_def)
  qed
qed

lemma Layer_methods:
  "Layer pathToRegExp path methods mws opts = Inr l \<Longrightarrow>
     layer_methods l = add_methods [] methods"
  by (auto simp: Layer_def Let_def split: option.splits sum.splits prod.splits)

lemma param_methods: "layer_methods (param p fn l) = layer_methods l"
  by (simp add: param_def Let_def)

lemma setPrefix_methods:
  "setPrefix pathToRegExp prefix l = Inr l' \<Longrightarrow> layer_methods l' = layer_methods l"
  by (auto simp: setPrefix_def Let_def split: if_splits sum.splits prod.splits)

section \<open>Captures\<close>

text \<open>
  C10. \<open>Layer.captures\<close> has no failing branch: it is the empty list under
  \<open>ignoreCaptures\<close>, the empty list when the path does not match the layer's expression,
  and the capture groups of the match, in order, otherwise.
\<close>

theorem captures_total:
  "(opt_ignoreCaptures (layer_opts l) = Some True \<longrightarrow> captures l path = [])
   \<and> (\<not> layer_match l path \<longrightarrow> captures l path = [])
   \<and> (\<forall>m. opt_ignoreCaptures (layer_opts l) \<noteq> Some True \<and> layer_regexp l path = Some m \<longrightarrow>
          captures l path = drop 1 m)"
  by (auto simp: captures_def layer_match_def)

theorem captures_total_witness:
  "captures (users_layer\<lparr>layer_opts := no_options\<lparr>opt_ignoreCaptures := Some True\<rparr>\<rparr>)
       ''/users/a%20b'' = []
   \<and> \<not> layer_match users_layer ''/posts'' \<and> captures users_layer ''/posts'' = []
   \<and> captures users_layer ''/users/a%20b'' = [Some ''a%20b'']"
  using captures_total [of "users_layer\<lparr>layer_opts := no_options\<lparr>opt_ignoreCaptures := Some True\<rparr>\<rparr>"
      "''/users/a%20b''"]
    captures_total [of users_layer "''/posts''"]
    captures_total [of users_layer "''/users/a%20b''"]
  by (simp add: users_layer_def no_options_def layer_match_def)

section \<open>Matching\<close>

lemma match_loop_path:
  "m_path (match_loop path method acc ls) = m_path acc @ filter (\<lambda>l. layer_match l path) ls"
  by (induction ls arbitrary: acc) (simp_all add: Let_def)

lemma match_loop_pathAndMethod:
  "m_pathAndMethod (match_loop path method acc ls) =
     m_pathAndMethod acc @
     filter (\<lambda>l. layer_methods l = [] \<or> method \<in> set (layer_methods l))
       (filter (\<lambda>l. layer_match l path) ls)"
  by (induction ls arbitrary: acc) (simp_all add: Let_def)

lemma match_loop_route:
  "m_route (match_loop path method acc ls) =
     (m_route acc \<or>
      (\<exists>l\<in>set ls. layer_match l path \<and> layer_methods l \<noteq> [] \<and> method \<in> set (layer_methods l)))"
  by (induction ls arbitrary: acc) (auto simp add: Let_def)

lemma register_appends:
  "register pathToRegExp r path methods mws opts = Inr (route, r') \<Longrightarrow>
     router_stack r' = router_stack r @ [route]"
  by (auto simp: register_def Let_def split: sum.splits if_splits)

lemma example_layer_match [simp]:
  "layer_match (example_layer ''/user/(.*)'' ms mws) ''/user/x''"
  "\<not> layer_match (example_layer ''/app/(.*)'' ms mws) ''/user/x''"
  "layer_match (example_layer ''(.*)'' ms mws) ''/user/x''"
  by (simp_all add: layer_match_def example_layer_def example_pathToRegExp_def Let_def)

lemma example_layer_methods [simp]:
  "layer_methods (example_layer p [''get''] mws) = [''HEAD'', ''GET'']"
  "layer_methods (example_layer p [] mws) = []"
  by (simp_all add: example_layer_def toUpperCase_def upper_char_def Let_def)

text \<open>
  C1. \<open>Router.match\<close> returns, as \<open>path\<close>, the layers of the stack that match the
  path, all of them and in the order of the stack, and as \<open>pathAndMethod\<close> those of them
  whose method list is empty or holds the request method. The order of the stack is the
  order of registration: \<open>register\<close> puts the new layer at the end.
\<close>

theorem router_match_lists:
  "m_path (router_match r path verb) = filter (\<lambda>l. layer_match l path) (router_stack r)
   \<and> m_pathAndMethod (router_match r path verb) =
       filter (\<lambda>l. layer_methods l = [] \<or> verb \<in> set (layer_methods l))
         (m_path (router_match r path verb))
   \<and> (\<forall>route r'. register pathToRegExp r pattern methods middleware opts = Inr (route, r') \<longrightarrow>
         router_stack r' = router_stack r @ [route])"
  by (auto simp: router_match_def match_loop_path match_loop_pathAndMethod
      dest: register_appends)

theorem router_match_lists_witness:
  "m_path (router_match example_router ''/user/x'' ''POST'') =
     [example_layer ''/user/(.*)'' [''get''] [handler 1], example_layer ''(.*)'' [] [handler 3]]
   \<and> m_pathAndMethod (router_match example_router ''/user/x'' ''POST'') =
     [example_layer ''(.*)'' [] [handler 3]]
   \<and> (\<exists>route r'. register example_pathToRegExp example_router (PathString ''/last'')
          [''get''] [handler 4] no_options = Inr (route, r')
        \<and> router_stack r' = router_stack example_router @ [route])"
proof -
  obtain route r' where reg: "register example_pathToRegExp example_router
      (PathString ''/last'') [''get''] [handler 4] no_options = Inr (route, r')"
    by (simp add: register_def Layer_def example_pathToRegExp_def example_router_def
        Router_def handler_def middleware_error_def no_options_def str_truthy_def Let_def)
  show ?thesis
    using reg router_match_lists [where r = example_router and path = "''/user/x''"
        and verb = "''POST''" and pathToRegExp = example_pathToRegExp
        and pattern = "PathString ''/last''" and methods = "[''get'']"
        and middleware = "[handler 4]" and opts = no_options]
    by (simp add: example_router_def)
qed

text \<open>
  C3. A layer constructed from a list of method names that holds \<open>GET\<close> in any letter
  case has \<open>HEAD\<close> in its method list, at the front, next to \<open>GET\<close>; \<open>param\<close> and
  \<open>setPrefix\<close> leave the method list as it is, and matching only reads it. So
  \<open>Router.match\<close> lists the layer for \<open>HEAD\<close> wherever it lists it for \<open>GET\<close>.
\<close>

theorem get_layer_answers_head:
  assumes "Layer pathToRegExp path methods middlewares opts = Inr l"
    and "\<exists>m\<in>set methods. toUpperCase m = ''GET''"
  shows "hd (layer_methods l) = ''HEAD'' \<and> ''HEAD'' \<in> set (layer_methods l)
       \<and> ''GET'' \<in> set (layer_methods l)
       \<and> layer_methods (param p fn l) = layer_methods l
       \<and> (\<forall>l'. setPrefix pathToRegExp' prefix l = Inr l' \<longrightarrow>
              layer_methods l' = layer_methods l)
       \<and> (\<forall>r p. l \<in> set (m_pathAndMethod (router_match r p ''GET'')) \<longrightarrow>
              l \<in> set (m_pathAndMethod (router_match r p ''HEAD'')))"
proof -
  have m: "layer_methods l = add_methods [] methods"
    using assms(1) by (rule Layer_methods)
  have h: "add_methods [] methods \<noteq> [] \<and> hd (add_methods [] methods) = ''HEAD''"
    using assms(2) by (rule add_methods_get_head)
  then have "''HEAD'' \<in> set (add_methods [] methods)"
    by (metis hd_in_set)
  moreover have "''GET'' \<in> set (add_methods [] methods)"
    using assms(2) by (force simp: add_methods_set)
  ultimately show ?thesis
    using m h
    by (auto simp: param_methods router_match_def match_loop_pathAndMethod
        dest: setPrefix_methods)
qed

theorem get_layer_answers_head_witness:
  "(\<exists>l. Layer example_pathToRegExp (PathString ''/users'') [''post'', ''Get''] [handler 1] None
          = Inr l
      \<and> layer_methods l = [''HEAD'', ''POST'', ''GET'']
      \<and> hd (layer_methods l) = ''HEAD''
      \<and> layer_methods (param ''id'' 7 l) = layer_methods l
      \<and> (\<forall>l'. setPrefix example_pathToRegExp ''/api'' l = Inr l' \<longrightarrow>
             layer_methods l' = layer_methods l))"
proof -
  obtain l where l: "Layer example_pathToRegExp (PathString ''/users'') [''post'', ''Get'']
      [handler 1] None = Inr l"
    by (simp add: Layer_def example_pathToRegExp_def handler_def middleware_error_def Let_def)
  have g: "\<exists>m\<in>set [''post'', ''Get'']. toUpperCase m = ''GET''"
    by (simp add: toUpperCase_def upper_char_def)
  have "layer_methods l = [''HEAD'', ''POST'', ''GET'']"
    using Layer_methods [OF l] by (simp add: toUpperCase_def upper_char_def Let_def)
  then show ?thesis
    using l get_layer_answers_head [OF l g, of "''id''" 7 example_pathToRegExp "''/api''"]
    by simp
qed

section \<open>Parameter validators\<close>

lemma indexOf_mem: "(indexOf xs a > - 1) = (a \<in> set xs)"
  by (simp add: indexOf_def)

lemma some_splice_position:
  "some_splice names x mw stack =
     (if \<exists>fn\<in>set stack. stops names x fn
      then takeWhile (\<lambda>fn. \<not> stops names x fn) stack @
             mw # dropWhile (\<lambda>fn. \<not> stops names x fn) stack
      else stack)"
  by (induction stack) auto

lemma some_splice_front:
  assumes "hs \<noteq> []" and "\<not> str_truthy (mw_param (hd hs))"
    and "\<forall>v\<in>set vs. str_truthy (mw_param v)"
  shows "some_splice names x mw (vs @ hs) =
     (takeWhile (\<lambda>v. indexOf names (KStr (the (mw_param v))) \<le> x) vs @
        mw # dropWhile (\<lambda>v. indexOf names (KStr (the (mw_param v))) \<le> x) vs) @ hs"
  using assms
proof (induction vs)
  case Nil
  then show ?case by (cases hs) (simp_all add: stops_def)
next
  case (Cons v vs)
  then show ?case by (auto simp: stops_def)
qed

lemma sorted_insert_after:
  fixes key :: "'a \<Rightarrow> int"
  assumes "sorted (map key vs)" and "key mw = x"
  shows "sorted (map key (takeWhile (\<lambda>v. key v \<le> x) vs @ mw # dropWhile (\<lambda>v. key v \<le> x) vs))"
  using assms
proof (induction vs)
  case Nil
  then show ?case by simp
next
  case (Cons v vs)
  show ?case
  proof (cases "key v \<le> x")
    case True
    have "sorted (map key vs)" using Cons.prems(1) by simp
    then have ih: "sorted (map key (takeWhile (\<lambda>v. key v \<le> x) vs @ mw # dropWhile (\<lambda>v. key v \<le> x) vs))"
      using Cons.IH Cons.prems(2) by simp
    have "\<forall>u\<in>set vs. key v \<le> key u" using Cons.prems(1) by auto
    then have "\<forall>u\<in>set (takeWhile (\<lambda>v. key v \<le> x) vs @ mw # dropWhile (\<lambda>v. key v \<le> x) vs). key v \<le> key u"
      using True Cons.prems(2) by (auto dest: set_takeWhileD set_dropWhileD)
    then show ?thesis using True ih by (simp del: map_append)
  next
    case False
    then show ?thesis using Cons.prems by auto
  qed
qed

lemma mset_insert_after:
  "mset (takeWhile P vs @ mw # dropWhile P vs) = add_mset mw (mset vs)"
proof -
  have "mset (takeWhile P vs) + mset (dropWhile P vs) = mset (takeWhile P vs @ dropWhile P vs)"
    by (simp only: mset_append)
  then have "mset (takeWhile P vs) + mset (dropWhile P vs) = mset vs"
    by simp
  then show ?thesis
    by simp
qed

lemma param_paramNames: "layer_paramNames (param p fn l) = layer_paramNames l"
  by (simp add: param_def Let_def)

lemma apply_params_front:
  fixes l :: "('h, 'p) layer"
  assumes "\<forall>(n, f)\<in>set regs. n \<noteq> [] \<and> KStr n \<in> set (layer_paramNames l)"
    and "layer_stack l = vs0 @ hs" and "hs \<noteq> []" and "\<not> str_truthy (mw_param (hd hs))"
    and "\<forall>v\<in>set vs0. str_truthy (mw_param v)"
    and "sorted (map (\<lambda>v. indexOf (layer_paramNames l) (KStr (the (mw_param v)))) vs0)"
  shows "\<exists>vs. layer_stack (apply_params regs l) = vs @ hs
     \<and> mset vs = mset vs0 + mset (map (\<lambda>(n, f). param_middleware n f) regs)
     \<and> sorted (map (\<lambda>v. indexOf (layer_paramNames l) (KStr (the (mw_param v)))) vs)"
  using assms
proof (induction regs arbitrary: l vs0)
  case Nil
  then show ?case by simp
next
  case (Cons reg regs)
  obtain n f where reg: "reg = (n, f)" by (cases reg)
  let ?names = "layer_paramNames l"
  let ?key = "\<lambda>v::('h, 'p) middleware. indexOf ?names (KStr (the (mw_param v)))"
  let ?x = "indexOf ?names (KStr n)"
  let ?mw = "param_middleware n f :: ('h, 'p) middleware"
  let ?vs1 = "takeWhile (\<lambda>v. ?key v \<le> ?x) vs0 @ ?mw # dropWhile (\<lambda>v. ?key v \<le> ?x) vs0"
  have n: "n \<noteq> []" "KStr n \<in> set ?names" using Cons.prems(1) reg by auto
  then have x: "?x > - 1" by (simp add: indexOf_mem)
  have stack1: "layer_stack (param n f l) = ?vs1 @ hs"
    using x Cons.prems(2-5) some_splice_front [of hs vs0 ?names ?x ?mw]
    by (simp add: param_def Let_def)
  have names1: "layer_paramNames (param n f l) = ?names" by (rule param_paramNames)
  have key_mw: "?key ?mw = ?x" by (simp add: param_middleware_def)
  have truthy1: "\<forall>v\<in>set ?vs1. str_truthy (mw_param v)"
    using Cons.prems(5) n by (auto simp: param_middleware_def str_truthy_def dest: set_takeWhileD set_dropWhileD)
  have sorted1: "sorted (map ?key ?vs1)"
    using sorted_insert_after [OF Cons.prems(6) key_mw] .
  have regs1: "\<forall>(m, g)\<in>set regs. m \<noteq> [] \<and> KStr m \<in> set (layer_paramNames (param n f l))"
    using Cons.prems(1) by (auto simp: param_paramNames)
  have sorted1': "sorted (map (\<lambda>v. indexOf (layer_paramNames (param n f l))
      (KStr (the (mw_param v)))) ?vs1)"
    using sorted1 by (simp only: names1)
  from Cons.IH [OF regs1 stack1 Cons.prems(3) Cons.prems(4) truthy1 sorted1']
  obtain vs where vs: "layer_stack (apply_params regs (param n f l)) = vs @ hs"
    "mset vs = mset ?vs1 + mset (map (\<lambda>(n, f). param_middleware n f) regs)"
    "sorted (map (\<lambda>v. indexOf (layer_paramNames (param n f l)) (KStr (the (mw_param v)))) vs)"
    by blast
  have "layer_stack (apply_params (reg # regs) l) = vs @ hs"
    using vs(1) by (simp add: reg)
  moreover have "mset vs = mset vs0 + mset (map (\<lambda>(n, f). param_middleware n f) (reg # regs))"
    using vs(2) by (simp only: mset_insert_after) (simp add: reg)
  moreover have "sorted (map ?key vs)"
    using vs(3) by (simp only: names1)
  ultimately show ?case by blast
qed

text \<open>
  C4, as the code has it. For a name among the layer's parameter names, \<open>Layer.param\<close>
  puts the validator immediately before the first stack entry that has no truthy
  \<open>param\<close> property or is the validator of a later parameter, when the stack has such an
  entry, and leaves the stack as it is when it has none. So, on a layer whose stack
  starts with a handler that is not a validator, validators registered in any order stand
  in front of the handlers, in the order of the parameter names.
\<close>

theorem param_puts_validators_in_order:
  fixes l :: "('h, 'p) layer"
  shows
    "(KStr n \<in> set (layer_paramNames l) \<longrightarrow>
        layer_stack (param n f l) =
          (if \<exists>fn\<in>set (layer_stack l).
                stops (layer_paramNames l) (indexOf (layer_paramNames l) (KStr n)) fn
           then takeWhile
                  (\<lambda>fn. \<not> stops (layer_paramNames l) (indexOf (layer_paramNames l) (KStr n)) fn)
                  (layer_stack l)
                @ param_middleware n f
                # dropWhile
                    (\<lambda>fn. \<not> stops (layer_paramNames l) (indexOf (layer_paramNames l) (KStr n)) fn)
                    (layer_stack l)
           else layer_stack l))
     \<and> ((\<forall>(m, g)\<in>set regs. m \<noteq> [] \<and> KStr m \<in> set (layer_paramNames l))
          \<and> layer_stack l \<noteq> [] \<and> \<not> str_truthy (mw_param (hd (layer_stack l))) \<longrightarrow>
         (\<exists>vs. layer_stack (apply_params regs l) = vs @ layer_stack l
            \<and> mset vs = mset (map (\<lambda>(m, g). param_middleware m g) regs)
            \<and> sorted (map (\<lambda>v. indexOf (layer_paramNames l) (KStr (the (mw_param v)))) vs)))"
proof (intro conjI impI)
  assume "KStr n \<in> set (layer_paramNames l)"
  then have "indexOf (layer_paramNames l) (KStr n) > - 1"
    by (simp add: indexOf_mem)
  then show "layer_stack (param n f l) =
          (if \<exists>fn\<in>set (layer_stack l).
                stops (layer_paramNames l) (indexOf (layer_paramNames l) (KStr n)) fn
           then takeWhile
                  (\<lambda>fn. \<not> stops (layer_paramNames l) (indexOf (layer_paramNames l) (KStr n)) fn)
                  (layer_stack l)
                @ param_middleware n f
                # dropWhile
                    (\<lambda>fn. \<not> stops (layer_paramNames l) (indexOf (layer_paramNames l) (KStr n)) fn)
                    (layer_stack l)
           else layer_stack l)"
    by (simp add: param_def Let_def some_splice_position)
next
  assume a: "(\<forall>(m, g)\<in>set regs. m \<noteq> [] \<and> KStr m \<in> set (layer_paramNames l))
          \<and> layer_stack l \<noteq> [] \<and> \<not> str_truthy (mw_param (hd (layer_stack l)))"
  have "\<exists>vs. layer_stack (apply_params regs l) = vs @ layer_stack l
     \<and> mset vs = mset [] + mset (map (\<lambda>(n, f). param_middleware n f) regs)
     \<and> sorted (map (\<lambda>v. indexOf (layer_paramNames l) (KStr (the (mw_param v)))) vs)"
    by (rule apply_params_front [where ?vs0.0 = "[]"]) (use a in auto)
  then show "\<exists>vs. layer_stack (apply_params regs l) = vs @ layer_stack l
            \<and> mset vs = mset (map (\<lambda>(m, g). param_middleware m g) regs)
            \<and> sorted (map (\<lambda>v. indexOf (layer_paramNames l) (KStr (the (mw_param v)))) vs)"
    by simp
qed

theorem param_puts_validators_in_order_witness:
  "KStr ''a'' \<in> set (layer_paramNames abcd_layer)
   \<and> layer_stack (param ''a'' 1 abcd_layer) = [param_middleware ''a'' 1, handler 0]
   \<and> list_all (\<lambda>(m, g). m \<noteq> [] \<and> KStr m \<in> set (layer_paramNames abcd_layer)) dcab
   \<and> layer_stack abcd_layer \<noteq> [] \<and> \<not> str_truthy (mw_param (hd (layer_stack abcd_layer)))
   \<and> (\<exists>vs. layer_stack (apply_params dcab abcd_layer) = vs @ layer_stack abcd_layer
        \<and> mset vs = mset (map (\<lambda>(m, g). param_middleware m g) dcab)
        \<and> sorted (map (\<lambda>v. indexOf (layer_paramNames abcd_layer) (KStr (the (mw_param v)))) vs))
   \<and> layer_stack (apply_params dcab abcd_layer) =
       [param_middleware ''a'' 1, param_middleware ''b'' 2, param_middleware ''c'' 3,
        param_middleware ''d'' 4, handler 0]"
proof -
  have names: "layer_paramNames abcd_layer = [KStr ''a'', KStr ''b'', KStr ''c'', KStr ''d'']"
    and stack: "layer_stack abcd_layer = [handler 0]"
    by (simp_all add: abcd_layer_def)
  have h1: "KStr ''a'' \<in> set (layer_paramNames abcd_layer)"
    by (simp add: names)
  have h2: "(\<forall>(m, g)\<in>set dcab. m \<noteq> [] \<and> KStr m \<in> set (layer_paramNames abcd_layer))
      \<and> layer_stack abcd_layer \<noteq> [] \<and> \<not> str_truthy (mw_param (hd (layer_stack abcd_layer)))"
    by (simp add: names stack dcab_def handler_def str_truthy_def)
  have one: "layer_stack (param ''a'' 1 abcd_layer) = [param_middleware ''a'' 1, handler 0]"
    by (simp add: param_def names stack indexOf_def stops_def handler_def str_truthy_def
        param_middleware_def Let_def)
  have all: "layer_stack (apply_params dcab abcd_layer) =
       [param_middleware ''a'' 1, param_middleware ''b'' 2, param_middleware ''c'' 3,
        param_middleware ''d'' 4, handler 0]"
    by (simp add: dcab_def param_def abcd_layer_def indexOf_def stops_def handler_def
        str_truthy_def param_middleware_def Let_def)
  have h3: "list_all (\<lambda>(m, g). m \<noteq> [] \<and> KStr m \<in> set (layer_paramNames abcd_layer)) dcab"
    using h2 by (simp add: list_all_iff)
  show ?thesis
    using param_puts_validators_in_order [of "''a''" abcd_layer 1 dcab] h1 h2 h3 one all
    by blast
qed

text \<open>
  The claim as the specification states it fails on a layer without handlers: the loop
  over the stack has no entry to stop at, and the validator is not inserted.
\<close>

theorem param_on_empty_stack_counterexample:
  "KStr ''a'' \<in> set (layer_paramNames (abcd_layer\<lparr>layer_stack := []\<rparr>))
   \<and> layer_stack (param ''a'' 1 (abcd_layer\<lparr>layer_stack := []\<rparr>)) = []
   \<and> layer_stack (apply_params dcab (abcd_layer\<lparr>layer_stack := []\<rparr>)) = []"
  by (simp add: dcab_def param_def abcd_layer_def indexOf_def Let_def)

section \<open>Dispatch\<close>

lemma compose_append:
  "compose (xs @ ys) ctx k = compose xs ctx (\<lambda>ctx'. compose ys ctx' k)"
  by (induction xs arbitrary: ctx k) simp_all

lemma foldl_chain:
  "foldl (\<lambda>memo layer. (memo @ [entry layer]) @ stack layer) acc ls =
     acc @ concat (map (\<lambda>layer. entry layer # stack layer) ls)"
  by (induction ls arbitrary: acc) simp_all

lemma layerChain_concat:
  "layerChain user validator decode routerPath ls =
     concat (map (\<lambda>l. layer_entry decode l routerPath #
                        map (call_middleware user validator) (layer_stack l)) ls)"
  unfolding layerChain_def foldl_chain by simp

lemma layerChain_Cons:
  "compose (layerChain user validator decode routerPath (l # ls)) ctx next =
     layer_entry decode l routerPath ctx
       (\<lambda>c. compose (map (call_middleware user validator) (layer_stack l)) c
               (\<lambda>c'. compose (layerChain user validator decode routerPath ls) c' next))"
  by (simp add: layerChain_concat compose_append)


lemma route_pathAndMethod:
  "m_route (router_match r path method) \<Longrightarrow> m_pathAndMethod (router_match r path method) \<noteq> []"
  by (auto simp: router_match_def match_loop_route match_loop_pathAndMethod filter_empty_conv)


lemma example_router_path [simp]:
  "effective_routerPath example_router (request path method) = PathString path"
  "effective_routerPath two_routes (request path method) = PathString path"
  by (simp_all add: effective_routerPath_def example_router_def two_routes_def Router_def
      request_def str_truthy_def)

lemma request_fields [simp]:
  "ctx_method (request path method) = method"
  "ctx_matched (request path method) = None"
  by (simp_all add: request_def)

lemma example_router_match [simp]:
  "router_match example_router ''/user/x'' ''POST'' =
     \<lparr>m_path = [example_layer ''/user/(.*)'' [''get''] [handler 1],
                 example_layer ''(.*)'' [] [handler 3]],
      m_pathAndMethod = [example_layer ''(.*)'' [] [handler 3]], m_route = False\<rparr>"
  "router_match example_router ''/user/x'' ''GET'' =
     \<lparr>m_path = [example_layer ''/user/(.*)'' [''get''] [handler 1],
                 example_layer ''(.*)'' [] [handler 3]],
      m_pathAndMethod = [example_layer ''/user/(.*)'' [''get''] [handler 1],
                 example_layer ''(.*)'' [] [handler 3]], m_route = True\<rparr>"
  by (simp_all add: router_match_def example_router_def Let_def)


section \<open>Routing metadata\<close>

lemma enter_layer_matched:
  "ctx_matchedRoute (enter_layer decode l routerPath caps ctx) = Some (layer_path l)"
  "ctx_matchedRouteName (enter_layer decode l routerPath caps ctx) =
     (if str_truthy (layer_name l) then layer_name l else None)"
  by (simp_all add: enter_layer_def Let_def)

lemma routes_sets_per_layer:
  "(m_route (router_match r (path_text (effective_routerPath r ctx)) (ctx_method ctx)) \<longrightarrow>
      (\<exists>ctx'. dispatch user validator decode r ctx cont =
          compose (layerChain user validator decode (effective_routerPath r ctx)
             (m_pathAndMethod
                (router_match r (path_text (effective_routerPath r ctx)) (ctx_method ctx))))
            ctx' cont
        \<and> ctx_matchedRoute ctx' = ctx_matchedRoute ctx
        \<and> ctx_matchedRouteName ctx' = ctx_matchedRouteName ctx))
   \<and> compose (layerChain user validator decode routerPath []) c cont = cont c
   \<and> compose (layerChain user validator decode routerPath (l # ls)) c cont =
       (case entry_captures l routerPath of
          Inl e \<Rightarrow> (Inl e, c)
        | Inr caps \<Rightarrow>
            compose (map (call_middleware user validator) (layer_stack l))
              (enter_layer decode l routerPath caps c)
              (\<lambda>c'. compose (layerChain user validator decode routerPath ls) c' cont))
   \<and> entry_captures l (PathString s) = (Inr (captures l s) :: 'e exn + capture list)
   \<and> ctx_matchedRoute (enter_layer decode l routerPath caps c) = Some (layer_path l)
   \<and> ctx_matchedRouteName (enter_layer decode l routerPath caps c) =
       (if str_truthy (layer_name l) then layer_name l else None)"
proof -
  let ?m = "router_match r (path_text (effective_routerPath r ctx)) (ctx_method ctx)"
  let ?ctx' = "ctx\<lparr>ctx_matched :=
            Some ((case ctx_matched ctx of Some ms \<Rightarrow> ms | None \<Rightarrow> []) @ m_path ?m),
          ctx_router := Some r\<rparr>"
  have "m_route ?m \<Longrightarrow> dispatch user validator decode r ctx cont =
      compose (layerChain user validator decode (effective_routerPath r ctx)
        (m_pathAndMethod ?m)) ?ctx' cont"
    by (simp add: dispatch_def Let_def split: option.splits)
  moreover have "ctx_matchedRoute ?ctx' = ctx_matchedRoute ctx"
    "ctx_matchedRouteName ?ctx' = ctx_matchedRouteName ctx"
    by simp_all
  ultimately have a: "m_route ?m \<longrightarrow>
      (\<exists>ctx'. dispatch user validator decode r ctx cont =
          compose (layerChain user validator decode (effective_routerPath r ctx)
             (m_pathAndMethod ?m)) ctx' cont
        \<and> ctx_matchedRoute ctx' = ctx_matchedRoute ctx
        \<and> ctx_matchedRouteName ctx' = ctx_matchedRouteName ctx)"
    by blast
  have b: "compose (layerChain user validator decode routerPath []) c cont = cont c"
    by (simp add: layerChain_def)
  have c: "compose (layerChain user validator decode routerPath (l # ls)) c cont =
       (case entry_captures l routerPath of
          Inl e \<Rightarrow> (Inl e, c)
        | Inr caps \<Rightarrow>
            compose (map (call_middleware user validator) (layer_stack l))
              (enter_layer decode l routerPath caps c)
              (\<lambda>c'. compose (layerChain user validator decode routerPath ls) c' cont))"
    by (simp only: layerChain_Cons layer_entry_def)
  have d: "entry_captures l (PathString s) = (Inr (captures l s) :: 'e exn + capture list)"
    by (simp add: entry_captures_def)
  show ?thesis
    using a b c d enter_layer_matched [of decode l routerPath caps c] by blast
qed

lemma legacy_layerChain_concat:
  "legacy_layerChain user validator decode path ls =
     concat (map (\<lambda>l. legacy_layer_entry decode l path #
                        map (call_middleware user validator) (layer_stack l)) ls)"
  unfolding legacy_layerChain_def foldl_chain by simp

lemma legacy_layerChain_Cons:
  "compose (legacy_layerChain user validator decode path (l # ls)) ctx cont =
     legacy_layer_entry decode l path ctx
       (\<lambda>c. compose (map (call_middleware user validator) (layer_stack l)) c
               (\<lambda>c'. compose (legacy_layerChain user validator decode path ls) c' cont))"
  by (simp add: legacy_layerChain_concat compose_append)

lemma legacy_routes_sets_once:
  "(m_route (router_match r (path_text (effective_routerPath r ctx)) (ctx_method ctx)) \<longrightarrow>
      (\<exists>ctx'. legacy_dispatch user validator decode r ctx cont =
          compose (legacy_layerChain user validator decode (effective_routerPath r ctx)
             (m_pathAndMethod
                (router_match r (path_text (effective_routerPath r ctx)) (ctx_method ctx))))
            ctx' cont
        \<and> ctx_matchedRoute ctx' =
            Some (layer_path (last (m_pathAndMethod
              (router_match r (path_text (effective_routerPath r ctx)) (ctx_method ctx)))))
        \<and> ctx_matchedRouteName ctx' =
            (if str_truthy (layer_name (last (m_pathAndMethod
                  (router_match r (path_text (effective_routerPath r ctx)) (ctx_method ctx)))))
             then layer_name (last (m_pathAndMethod
                  (router_match r (path_text (effective_routerPath r ctx)) (ctx_method ctx))))
             else ctx_matchedRouteName ctx)))
   \<and> compose (legacy_layerChain user validator decode routerPath []) c cont = cont c
   \<and> compose (legacy_layerChain user validator decode routerPath (l # ls)) c cont =
       (case legacy_captures l routerPath of
          Inl e \<Rightarrow> (Inl e, c)
        | Inr caps \<Rightarrow>
            compose (map (call_middleware user validator) (layer_stack l))
              (legacy_enter_layer decode l routerPath caps c)
              (\<lambda>c'. compose (legacy_layerChain user validator decode routerPath ls) c' cont))
   \<and> (\<forall>caps. ctx_matchedRoute (legacy_enter_layer decode l routerPath caps c) =
          ctx_matchedRoute c
        \<and> ctx_matchedRouteName (legacy_enter_layer decode l routerPath caps c) =
          ctx_matchedRouteName c)"
proof -
  let ?m = "router_match r (path_text (effective_routerPath r ctx)) (ctx_method ctx)"
  let ?ms = "m_pathAndMethod ?m"
  let ?ctx2 = "ctx\<lparr>ctx_matched :=
            Some ((case ctx_matched ctx of Some ms \<Rightarrow> ms | None \<Rightarrow> []) @ m_path ?m),
          ctx_router := Some r\<rparr>"
  let ?ctx3 = "?ctx2\<lparr>ctx_matchedRoute := Some (layer_path (last ?ms))\<rparr>"
  let ?ctx4 = "if str_truthy (layer_name (last ?ms))
      then ?ctx3\<lparr>ctx_matchedRouteName := layer_name (last ?ms)\<rparr> else ?ctx3"
  have run: "legacy_dispatch user validator decode r ctx cont =
      compose (legacy_layerChain user validator decode (effective_routerPath r ctx) ?ms)
        ?ctx4 cont"
    if route: "m_route ?m"
  proof -
    have ne: "?ms \<noteq> []"
      using route by (rule route_pathAndMethod)
    show ?thesis
      using route ne
      by (simp add: legacy_dispatch_def Let_def last_conv_nth split: option.splits)
  qed
  have fields: "ctx_matchedRoute ?ctx4 = Some (layer_path (last ?ms))"
    "ctx_matchedRouteName ?ctx4 =
       (if str_truthy (layer_name (last ?ms)) then layer_name (last ?ms)
        else ctx_matchedRouteName ctx)"
    by simp_all
  have a: "m_route ?m \<longrightarrow>
      (\<exists>ctx'. legacy_dispatch user validator decode r ctx cont =
          compose (legacy_layerChain user validator decode (effective_routerPath r ctx) ?ms)
            ctx' cont
        \<and> ctx_matchedRoute ctx' = Some (layer_path (last ?ms))
        \<and> ctx_matchedRouteName ctx' =
            (if str_truthy (layer_name (last ?ms)) then layer_name (last ?ms)
             else ctx_matchedRouteName ctx))"
    using run fields by blast
  have b: "compose (legacy_layerChain user validator decode routerPath []) c cont = cont c"
    by (simp add: legacy_layerChain_def)
  have c: "compose (legacy_layerChain user validator decode routerPath (l # ls)) c cont =
       (case legacy_captures l routerPath of
          Inl e \<Rightarrow> (Inl e, c)
        | Inr caps \<Rightarrow>
            compose (map (call_middleware user validator) (layer_stack l))
              (legacy_enter_layer decode l routerPath caps c)
              (\<lambda>c'. compose (legacy_layerChain user validator decode routerPath ls) c' cont))"
    by (simp only: legacy_layerChain_Cons legacy_layer_entry_def)
  have d: "\<forall>caps. ctx_matchedRoute (legacy_enter_layer decode l routerPath caps c) =
          ctx_matchedRoute c
        \<and> ctx_matchedRouteName (legacy_enter_layer decode l routerPath caps c) =
          ctx_matchedRouteName c"
    by (simp add: legacy_enter_layer_def Let_def)
  show ?thesis
    using a b c d by blast
qed

lemma two_routes_match [simp]:
  "router_match two_routes ''/users/1'' ''GET'' =
     \<lparr>m_path = router_stack two_routes, m_pathAndMethod = router_stack two_routes,
      m_route = True\<rparr>"
  by (simp add: router_match_def two_routes_def Router_def named_layer_def layer_match_def
      Let_def)

text \<open>
  C6, as the code has it. The two routers that the claim names differ. In the
  TypeScript router (\<open>Router.routes\<close> of \<open>src\<close>) the dispatch function itself leaves
  \<open>_matchedRoute\<close> and \<open>_matchedRouteName\<close> alone; the chain entry of every matched
  layer sets them to that layer's path and to its name (\<open>undefined\<close> for a layer without
  a name) before the layer's own stack runs, so they are set again for each matched layer
  that the chain reaches, and hold the values of the last matched layer only from its
  entry on. In the legacy router (\<open>lib/router.js\<close>) the dispatch function sets them once,
  before the chain, to the path and, when it has one, the name of the last layer of the
  matched list, and no chain entry changes them.
\<close>

theorem matched_route_by_router:
  "((m_route (router_match r (path_text (effective_routerPath r ctx)) (ctx_method ctx)) \<longrightarrow>
      (\<exists>ctx'. dispatch user validator decode r ctx cont =
          compose (layerChain user validator decode (effective_routerPath r ctx)
             (m_pathAndMethod
                (router_match r (path_text (effective_routerPath r ctx)) (ctx_method ctx))))
            ctx' cont
        \<and> ctx_matchedRoute ctx' = ctx_matchedRoute ctx
        \<and> ctx_matchedRouteName ctx' = ctx_matchedRouteName ctx))
   \<and> compose (layerChain user validator decode routerPath []) c cont = cont c
   \<and> compose (layerChain user validator decode routerPath (l # ls)) c cont =
       (case entry_captures l routerPath of
          Inl e \<Rightarrow> (Inl e, c)
        | Inr caps \<Rightarrow>
            compose (map (call_middleware user validator) (layer_stack l))
              (enter_layer decode l routerPath caps c)
              (\<lambda>c'. compose (layerChain user validator decode routerPath ls) c' cont))
   \<and> entry_captures l (PathString s) = (Inr (captures l s) :: 'e exn + capture list)
   \<and> ctx_matchedRoute (enter_layer decode l routerPath caps c) = Some (layer_path l)
   \<and> ctx_matchedRouteName (enter_layer decode l routerPath caps c) =
       (if str_truthy (layer_name l) then layer_name l else None))
   \<and> ((m_route (router_match r (path_text (effective_routerPath r ctx)) (ctx_method ctx)) \<longrightarrow>
      (\<exists>ctx'. legacy_dispatch user validator decode r ctx cont =
          compose (legacy_layerChain user validator decode (effective_routerPath r ctx)
             (m_pathAndMethod
                (router_match r (path_text (effective_routerPath r ctx)) (ctx_method ctx))))
            ctx' cont
        \<and> ctx_matchedRoute ctx' =
            Some (layer_path (last (m_pathAndMethod
              (router_match r (path_text (effective_routerPath r ctx)) (ctx_method ctx)))))
        \<and> ctx_matchedRouteName ctx' =
            (if str_truthy (layer_name (last (m_pathAndMethod
                  (router_match r (path_text (effective_routerPath r ctx)) (ctx_method ctx)))))
             then layer_name (last (m_pathAndMethod
                  (router_match r (path_text (effective_routerPath r ctx)) (ctx_method ctx))))
             else ctx_matchedRouteName ctx)))
   \<and> compose (legacy_layerChain user validator decode routerPath []) c cont = cont c
   \<and> compose (legacy_layerChain user validator decode routerPath (l # ls)) c cont =
       (case legacy_captures l routerPath of
          Inl e \<Rightarrow> (Inl e, c)
        | Inr caps \<Rightarrow>
            compose (map (call_middleware user validator) (layer_stack l))
              (legacy_enter_layer decode l routerPath caps c)
              (\<lambda>c'. compose (legacy_layerChain user validator decode routerPath ls) c' cont))
   \<and> (\<forall>caps. ctx_matchedRoute (legacy_enter_layer decode l routerPath caps c) =
          ctx_matchedRoute c
        \<and> ctx_matchedRouteName (legacy_enter_layer decode l routerPath caps c) =
          ctx_matchedRouteName c))"
proof (rule conjI)
  show "(m_route (router_match r (path_text (effective_routerPath r ctx)) (ctx_method ctx)) \<longrightarrow>
      (\<exists>ctx'. dispatch user validator decode r ctx cont =
          compose (layerChain user validator decode (effective_routerPath r ctx)
             (m_pathAndMethod
                (router_match r (path_text (effective_routerPath r ctx)) (ctx_method ctx))))
            ctx' cont
        \<and> ctx_matchedRoute ctx' = ctx_matchedRoute ctx
        \<and> ctx_matchedRouteName ctx' = ctx_matchedRouteName ctx))
   \<and> compose (layerChain user validator decode routerPath []) c cont = cont c
   \<and> compose (layerChain user validator decode routerPath (l # ls)) c cont =
       (case entry_captures l routerPath of
          Inl e \<Rightarrow> (Inl e, c)
        | Inr caps \<Rightarrow>
            compose (map (call_middleware user validator) (layer_stack l))
              (enter_layer decode l routerPath caps c)
              (\<lambda>c'. compose (layerChain user validator decode routerPath ls) c' cont))
   \<and> entry_captures l (PathString s) = (Inr (captures l s) :: 'e exn + capture list)
   \<and> ctx_matchedRoute (enter_layer decode l routerPath caps c) = Some (layer_path l)
   \<and> ctx_matchedRouteName (enter_layer decode l routerPath caps c) =
       (if str_truthy (layer_name l) then layer_name l else None)"
    by (rule routes_sets_per_layer)
  show "(m_route (router_match r (path_text (effective_routerPath r ctx)) (ctx_method ctx)) \<longrightarrow>
      (\<exists>ctx'. legacy_dispatch user validator decode r ctx cont =
          compose (legacy_layerChain user validator decode (effective_routerPath r ctx)
             (m_pathAndMethod
                (router_match r (path_text (effective_routerPath r ctx)) (ctx_method ctx))))
            ctx' cont
        \<and> ctx_matchedRoute ctx' =
            Some (layer_path (last (m_pathAndMethod
              (router_match r (path_text (effective_routerPath r ctx)) (ctx_method ctx)))))
        \<and> ctx_matchedRouteName ctx' =
            (if str_truthy (layer_name (last (m_pathAndMethod
                  (router_match r (path_text (effective_routerPath r ctx)) (ctx_method ctx)))))
             then layer_name (last (m_pathAndMethod
                  (router_match r (path_text (effective_routerPath r ctx)) (ctx_method ctx))))
             else ctx_matchedRouteName ctx)))
   \<and> compose (legacy_layerChain user validator decode routerPath []) c cont = cont c
   \<and> compose (legacy_layerChain user validator decode routerPath (l # ls)) c cont =
       (case legacy_captures l routerPath of
          Inl e \<Rightarrow> (Inl e, c)
        | Inr caps \<Rightarrow>
            compose (map (call_middleware user validator) (layer_stack l))
              (legacy_enter_layer decode l routerPath caps c)
              (\<lambda>c'. compose (legacy_layerChain user validator decode routerPath ls) c' cont))
   \<and> (\<forall>caps. ctx_matchedRoute (legacy_enter_layer decode l routerPath caps c) =
          ctx_matchedRoute c
        \<and> ctx_matchedRouteName (legacy_enter_layer decode l routerPath caps c) =
          ctx_matchedRouteName c)"
    by (rule legacy_routes_sets_once)
qed

theorem matched_route_by_router_witness:
  "m_route (router_match two_routes (path_text (effective_routerPath two_routes
       (request ''/users/1'' ''GET''))) (ctx_method (request ''/users/1'' ''GET'')))
   \<and> (\<exists>ctx'. dispatch observing passing example_decode two_routes
          (request ''/users/1'' ''GET'') finish =
          compose (layerChain observing passing example_decode (PathString ''/users/1'')
             (router_stack two_routes)) ctx' finish
        \<and> ctx_matchedRoute ctx' = None \<and> ctx_matchedRouteName ctx' = None)
   \<and> ctx_matchedRoute (enter_layer example_decode (hd (router_stack two_routes))
         (PathString ''/users/1'') [] (request ''/users/1'' ''GET'')) =
       Some (PathString ''/users/1'')
   \<and> ctx_matchedRouteName (enter_layer example_decode (hd (router_stack two_routes))
         (PathString ''/users/1'') [] (request ''/users/1'' ''GET'')) = Some ''name1''
   \<and> (\<exists>ctx'. legacy_dispatch observing passing example_decode two_routes
          (request ''/users/1'' ''GET'') finish =
          compose (legacy_layerChain observing passing example_decode (PathString ''/users/1'')
             (router_stack two_routes)) ctx' finish
        \<and> ctx_matchedRoute ctx' = Some (PathString ''/users/:id'')
        \<and> ctx_matchedRouteName ctx' = Some ''name2'')
   \<and> ctx_state (snd (legacy_dispatch observing passing example_decode two_routes
         (request ''/users/1'' ''GET'') finish)) =
       [(Some (PathString ''/users/:id''), Some ''name2''),
        (Some (PathString ''/users/:id''), Some ''name2'')]"
proof -
  have stack: "router_stack two_routes =
      [named_layer ''name1'' ''/users/1''
         (\<lambda>s. if s = ''/users/1'' then Some [Some s] else None) [] 1,
       named_layer ''name2'' ''/users/:id''
         (\<lambda>s. if take 7 s = ''/users/'' \<and> CHR ''/'' \<notin> set (drop 7 s) \<and> drop 7 s \<noteq> []
              then Some [Some s, Some (drop 7 s)] else None) [KStr ''id''] 2]"
    by (simp add: two_routes_def Router_def)
  have first: "layer_path (hd (router_stack two_routes)) = PathString ''/users/1''"
    "layer_name (hd (router_stack two_routes)) = Some ''name1''"
    by (simp_all add: stack named_layer_def)
  have final: "layer_path (last (router_stack two_routes)) = PathString ''/users/:id''"
    "layer_name (last (router_stack two_routes)) = Some ''name2''"
    by (simp_all add: stack named_layer_def)
  have unset: "ctx_matchedRoute (request ''/users/1'' ''GET'') = None"
    "ctx_matchedRouteName (request ''/users/1'' ''GET'') = None"
    by (simp_all add: request_def)
  have route: "m_route (router_match two_routes (path_text (effective_routerPath two_routes
       (request ''/users/1'' ''GET''))) (ctx_method (request ''/users/1'' ''GET'')))"
    by simp
  have run: "legacy_dispatch observing passing example_decode two_routes
         (request ''/users/1'' ''GET'') finish =
       compose (legacy_layerChain observing passing example_decode (PathString ''/users/1'')
          (router_stack two_routes))
         ((request ''/users/1'' ''GET'')\<lparr>ctx_matched := Some (router_stack two_routes),
            ctx_router := Some two_routes,
            ctx_matchedRoute := Some (PathString ''/users/:id''),
            ctx_matchedRouteName := Some ''name2''\<rparr>) finish"
    by (simp add: legacy_dispatch_def Let_def)
       (simp add: stack named_layer_def str_truthy_def)
  have seen: "ctx_state (snd (legacy_dispatch observing passing example_decode two_routes
         (request ''/users/1'' ''GET'') finish)) =
       [(Some (PathString ''/users/:id''), Some ''name2''),
        (Some (PathString ''/users/:id''), Some ''name2'')]"
    unfolding run
    by (simp add: stack legacy_layerChain_def named_layer_def legacy_layer_entry_def
        legacy_captures_def legacy_enter_layer_def call_middleware_def handler_def
        observing_def finish_def str_truthy_def request_def no_options_def Let_def)
  show ?thesis
    using route seen matched_route_by_router [where user = observing and validator = passing
      and decode = example_decode and r = two_routes and ctx = "request ''/users/1'' ''GET''"
      and cont = finish and l = "hd (router_stack two_routes)" and ls = "[]" and s = "[]"
      and routerPath = "PathString ''/users/1''" and caps = "[]"
      and c = "request ''/users/1'' ''GET''"]
    by (simp add: first final unset str_truthy_def) blast
qed

text \<open>
  The claim as the specification states it fails on the TypeScript router, at its own
  test \<open>routerName and routerPath work with next\<close>: of two matched layers, the handler
  of the first sees the path and name of the first, not of the last, and the handler of
  the second sees them changed.
\<close>

theorem matched_route_changes_counterexample:
  "m_pathAndMethod (router_match two_routes ''/users/1'' ''GET'') = router_stack two_routes
   \<and> map layer_path (router_stack two_routes) =
       [PathString ''/users/1'', PathString ''/users/:id'']
   \<and> ctx_state (snd (dispatch observing passing example_decode two_routes
         (request ''/users/1'' ''GET'') finish)) =
       [(Some (PathString ''/users/1''), Some ''name1''),
        (Some (PathString ''/users/:id''), Some ''name2'')]"
proof -
  have stack: "router_stack two_routes =
      [named_layer ''name1'' ''/users/1''
         (\<lambda>s. if s = ''/users/1'' then Some [Some s] else None) [] 1,
       named_layer ''name2'' ''/users/:id''
         (\<lambda>s. if take 7 s = ''/users/'' \<and> CHR ''/'' \<notin> set (drop 7 s) \<and> drop 7 s \<noteq> []
              then Some [Some s, Some (drop 7 s)] else None) [KStr ''id''] 2]"
    by (simp add: two_routes_def Router_def)
  have run: "dispatch observing passing example_decode two_routes
         (request ''/users/1'' ''GET'') finish =
       compose (layerChain observing passing example_decode (PathString ''/users/1'')
          (router_stack two_routes))
         ((request ''/users/1'' ''GET'')\<lparr>ctx_matched := Some (router_stack two_routes),
            ctx_router := Some two_routes\<rparr>) finish"
    by (simp add: dispatch_def Let_def)
  have "ctx_state (snd (dispatch observing passing example_decode two_routes
         (request ''/users/1'' ''GET'') finish)) =
       [(Some (PathString ''/users/1''), Some ''name1''),
        (Some (PathString ''/users/:id''), Some ''name2'')]"
    unfolding run
    by (simp add: stack layerChain_def named_layer_def layer_entry_def entry_captures_def
        enter_layer_def call_middleware_def handler_def observing_def finish_def
        str_truthy_def request_def Let_def)
  moreover have "map layer_path (router_stack two_routes) =
       [PathString ''/users/1'', PathString ''/users/:id'']"
    by (simp add: stack named_layer_def)
  ultimately show ?thesis by simp
qed

section \<open>Allowed methods\<close>

lemma first_seen_snoc:
  "rev (remdups (rev (xs @ [x]))) = set_allowed (rev (remdups (rev xs))) x"
  by (simp add: set_allowed_def)

lemma foldl_set_allowed:
  "foldl set_allowed (rev (remdups (rev ys))) xs = rev (remdups (rev (ys @ xs)))"
proof (induction xs arbitrary: ys)
  case Nil
  then show ?case by simp
next
  case (Cons x xs)
  have "foldl set_allowed (rev (remdups (rev ys))) (x # xs) =
      foldl set_allowed (rev (remdups (rev (ys @ [x])))) xs"
    by (simp only: foldl.simps first_seen_snoc)
  also have "\<dots> = rev (remdups (rev ((ys @ [x]) @ xs)))"
    by (rule Cons.IH)
  finally show ?case by simp
qed

lemma foldl_collect:
  "foldl (\<lambda>allowed route. foldl set_allowed allowed (layer_methods route))
       (rev (remdups (rev ys))) ls =
     rev (remdups (rev (ys @ concat (map layer_methods ls))))"
proof (induction ls arbitrary: ys)
  case Nil
  then show ?case by simp
next
  case (Cons l ls)
  show ?case
    using Cons.IH [of "ys @ layer_methods l"] by (simp add: foldl_set_allowed)
qed

lemma collect_allowed_first_seen:
  "collect_allowed matched = rev (remdups (rev (concat (map layer_methods matched))))"
  using foldl_collect [of "[]" matched] by (simp add: collect_allowed_def)

text \<open>
  C5. On a router with the default list of implemented methods, once \<open>next\<close> has
  settled with the status unset or 404, \<open>allowedMethods\<close> collects the methods of the
  layers in \<open>ctx.matched\<close>, each once and in the order of its first appearance. A method
  that is not implemented gives 501; \<open>OPTIONS\<close> with a non-empty collection gives 200, an
  empty body and the \<open>Allow\<close> header; an implemented method outside a non-empty collection
  gives 405 with the same header. Under the option \<open>throw\<close> the 501 and 405 cases throw
  the error instead and leave the context, and so the headers, as they are.
\<close>

theorem allowedMethods_contract:
  assumes "router_methods r = [''HEAD'', ''OPTIONS'', ''GET'', ''PUT'', ''PATCH'', ''POST'', ''DELETE'']"
    and "cont before = (Inr v, ctx)"
    and "ctx_status ctx = None \<or> ctx_status ctx = Some 404"
    and "ctx_matched ctx = Some matched"
    and "allowed = rev (remdups (rev (concat (map layer_methods matched))))"
    and "throw = (\<exists>opts. options = Some opts \<and> ao_throw opts = Some True)"
  shows "collect_allowed matched = allowed
    \<and> (ctx_method ctx \<notin> set (router_methods r) \<and> \<not> throw \<longrightarrow>
         allowedMethods r options before cont =
           (Inr (), ctx\<lparr>ctx_status := Some 501,
              ctx_headers := (ctx_headers ctx)(''Allow'' \<mapsto> join '', '' allowed)\<rparr>))
    \<and> (ctx_method ctx = ''OPTIONS'' \<and> allowed \<noteq> [] \<longrightarrow>
         allowedMethods r options before cont =
           (Inr (), ctx\<lparr>ctx_status := Some 200, ctx_body := Some [],
              ctx_headers := (ctx_headers ctx)(''Allow'' \<mapsto> join '', '' allowed)\<rparr>))
    \<and> (ctx_method ctx \<in> set (router_methods r) \<and> ctx_method ctx \<noteq> ''OPTIONS''
         \<and> allowed \<noteq> [] \<and> ctx_method ctx \<notin> set allowed \<and> \<not> throw \<longrightarrow>
         allowedMethods r options before cont =
           (Inr (), ctx\<lparr>ctx_status := Some 405,
              ctx_headers := (ctx_headers ctx)(''Allow'' \<mapsto> join '', '' allowed)\<rparr>))
    \<and> (ctx_method ctx \<notin> set (router_methods r) \<and> throw \<longrightarrow>
         allowedMethods r options before cont =
           (Inl (case Option.bind options ao_notImplemented of
                   Some e \<Rightarrow> Custom e | None \<Rightarrow> NotImplemented), ctx))
    \<and> (ctx_method ctx \<in> set (router_methods r) \<and> ctx_method ctx \<noteq> ''OPTIONS''
         \<and> allowed \<noteq> [] \<and> ctx_method ctx \<notin> set allowed \<and> throw \<longrightarrow>
         allowedMethods r options before cont =
           (Inl (case Option.bind options ao_methodNotAllowed of
                   Some e \<Rightarrow> Custom e | None \<Rightarrow> MethodNotAllowed), ctx))"
proof -
  have c: "collect_allowed matched = allowed"
    by (simp add: assms(5) collect_allowed_first_seen)
  have st: "\<not> (case ctx_status ctx of None \<Rightarrow> False | Some st \<Rightarrow> st \<noteq> 0 \<and> st \<noteq> 404)"
    using assms(3) by auto
  have th: "(case options of None \<Rightarrow> False | Some opts \<Rightarrow> ao_throw opts = Some True) = throw"
    by (simp add: assms(6) split: option.splits)
  have run: "allowedMethods r options before cont =
     (if ctx_method ctx \<notin> set (router_methods r) then
        (if throw then
           (case Option.bind options ao_notImplemented of
              Some e \<Rightarrow> (Inl (Custom e), ctx)
            | None \<Rightarrow> (Inl NotImplemented, ctx))
         else (Inr (), ctx\<lparr>ctx_status := Some 501,
                 ctx_headers := (ctx_headers ctx)(''Allow'' \<mapsto> join '', '' allowed)\<rparr>))
      else if length allowed > 0 then
        (if ctx_method ctx = ''OPTIONS'' then
           (Inr (), ctx\<lparr>ctx_status := Some 200, ctx_body := Some [],
              ctx_headers := (ctx_headers ctx)(''Allow'' \<mapsto> join '', '' allowed)\<rparr>)
         else if \<not> allowed_truthy allowed (ctx_method ctx) then
           (if throw then
              (case Option.bind options ao_methodNotAllowed of
                 Some e \<Rightarrow> (Inl (Custom e), ctx)
               | None \<Rightarrow> (Inl MethodNotAllowed, ctx))
            else (Inr (), ctx\<lparr>ctx_status := Some 405,
                    ctx_headers := (ctx_headers ctx)(''Allow'' \<mapsto> join '', '' allowed)\<rparr>))
         else (Inr (), ctx))
      else (Inr (), ctx))"
    unfolding allowedMethods_def Let_def th
    by (simp only: assms(2) assms(4) c st prod.case sum.case option.case if_False)
  have opt: "ctx_method ctx = ''OPTIONS'' \<Longrightarrow> ctx_method ctx \<in> set (router_methods r)"
    by (simp add: assms(1))
  have ne: "ctx_method ctx \<in> set (router_methods r) \<Longrightarrow> ctx_method ctx \<noteq> []"
    by (auto simp: assms(1))
  show ?thesis
    unfolding run using c opt ne
    by (auto simp: allowed_truthy_def split: option.splits)
qed

lemma users_request_allowed:
  "rev (remdups (rev (concat (map layer_methods
      [example_layer ''/users'' [''get''] [handler 1],
       example_layer ''/users'' [''put''] [handler 2 :: (nat, nat) middleware]])))) =
     [''HEAD'', ''GET'', ''PUT'']"
  by (simp add: example_layer_def toUpperCase_def upper_char_def Let_def)

theorem allowedMethods_contract_witness:
  "allowedMethods example_router None (users_request ''OPTIONS'') finish =
     (Inr (), (users_request ''OPTIONS'')\<lparr>ctx_status := Some 200, ctx_body := Some [],
        ctx_headers := Map.empty(''Allow'' \<mapsto> ''HEAD, GET, PUT'')\<rparr>)
   \<and> allowedMethods example_router None (users_request ''POST'') finish =
     (Inr (), (users_request ''POST'')\<lparr>ctx_status := Some 405,
        ctx_headers := Map.empty(''Allow'' \<mapsto> ''HEAD, GET, PUT'')\<rparr>)
   \<and> allowedMethods example_router None (users_request ''SEARCH'') finish =
     (Inr (), (users_request ''SEARCH'')\<lparr>ctx_status := Some 501,
        ctx_headers := Map.empty(''Allow'' \<mapsto> ''HEAD, GET, PUT'')\<rparr>)
   \<and> allowedMethods example_router (Some throwing) (users_request ''POST'') finish =
     (Inl MethodNotAllowed, users_request ''POST'')
   \<and> allowedMethods example_router (Some throwing) (users_request ''SEARCH'') finish =
     (Inl NotImplemented, users_request ''SEARCH'')"
proof -
  have r: "router_methods example_router =
      [''HEAD'', ''OPTIONS'', ''GET'', ''PUT'', ''PATCH'', ''POST'', ''DELETE'']"
    by (simp add: example_router_def Router_def)
  have f: "\<And>m. finish (users_request m) = (Inr (), users_request m)"
    by (simp add: finish_def)
  have s: "\<And>m. ctx_status (users_request m) = None \<or> ctx_status (users_request m) = Some 404"
    by (simp add: users_request_def request_def)
  have m: "\<And>m. ctx_matched (users_request m) =
      Some [example_layer ''/users'' [''get''] [handler 1],
            example_layer ''/users'' [''put''] [handler 2]]"
    by (simp add: users_request_def)
  have a: "[''HEAD'', ''GET'', ''PUT''] = rev (remdups (rev (concat (map layer_methods
      [example_layer ''/users'' [''get''] [handler 1],
       example_layer ''/users'' [''put''] [handler 2 :: (nat, nat) middleware]]))))"
    by (simp only: users_request_allowed)
  have t0: "False = (\<exists>opts. (None :: nat allowed_options option) = Some opts
      \<and> ao_throw opts = Some True)"
    by simp
  have t1: "True = (\<exists>opts. Some throwing = Some opts \<and> ao_throw opts = Some True)"
    by (simp add: throwing_def)
  have h: "\<And>m. ctx_headers (users_request m) = Map.empty"
    "\<And>m. ctx_method (users_request m) = m"
    by (simp_all add: users_request_def request_def)
  show ?thesis
    using allowedMethods_contract [where cont = finish and before = "users_request ''OPTIONS''",
        OF r f [of "''OPTIONS''"] s [of "''OPTIONS''"] m [of "''OPTIONS''"] a t0]
      allowedMethods_contract [where cont = finish and before = "users_request ''POST''",
        OF r f [of "''POST''"] s [of "''POST''"] m [of "''POST''"] a t0]
      allowedMethods_contract [where cont = finish and before = "users_request ''SEARCH''",
        OF r f [of "''SEARCH''"] s [of "''SEARCH''"] m [of "''SEARCH''"] a t0]
      allowedMethods_contract [where cont = finish and before = "users_request ''POST''",
        OF r f [of "''POST''"] s [of "''POST''"] m [of "''POST''"] a t1]
      allowedMethods_contract [where cont = finish and before = "users_request ''SEARCH''",
        OF r f [of "''SEARCH''"] s [of "''SEARCH''"] m [of "''SEARCH''"] a t1]
    by (simp add: r h throwing_def)
qed

section \<open>Parameters of a match\<close>

lemma params_loop_map:
  "params_loop decode names caps ps =
     ps ++ map_of (rev (zip (map key_text names)
       (map (\<lambda>c. if str_truthy c then Some (safeDecodeURIComponent decode (the c)) else c)
          caps)))"
proof (induction decode names caps ps rule: params_loop.induct)
  case (1 decode names params)
  then show ?case by simp
next
  case (2 decode c cs params)
  then show ?case by simp
next
  case (3 decode paramName names c cs params)
  show ?case
    by (rule ext) (simp add: "3.IH" map_add_def map_of_append split: option.splits)
qed

lemma map_of_rev_zip_nth:
  "i < length ks \<Longrightarrow> i < length vs \<Longrightarrow>
     \<forall>j. i < j \<and> j < length vs \<and> j < length ks \<longrightarrow> ks ! j \<noteq> ks ! i \<Longrightarrow>
     map_of (rev (zip ks vs)) (ks ! i) = Some (vs ! i)"
proof (induction ks arbitrary: vs i)
  case Nil
  then show ?case by simp
next
  case (Cons k ks)
  obtain v vs' where vs: "vs = v # vs'"
    using Cons.prems(2) by (cases vs) auto
  show ?case
  proof (cases i)
    case 0
    have "\<forall>j. j < length vs' \<and> j < length ks \<longrightarrow> ks ! j \<noteq> k"
    proof (intro allI impI)
      fix j assume "j < length vs' \<and> j < length ks"
      then show "ks ! j \<noteq> k"
        using Cons.prems(3) [rule_format, of "Suc j"] 0 vs by simp
    qed
    then have "k \<notin> fst ` set (zip ks vs')"
      by (auto simp: set_zip)
    then have "map_of (rev (zip ks vs')) k = None"
      by (simp add: map_of_eq_None_iff)
    then show ?thesis
      using 0 vs by (simp add: map_of_append map_add_def)
  next
    case (Suc i')
    have later: "\<forall>j. i' < j \<and> j < length vs' \<and> j < length ks \<longrightarrow> ks ! j \<noteq> ks ! i'"
    proof (intro allI impI)
      fix j assume "i' < j \<and> j < length vs' \<and> j < length ks"
      then show "ks ! j \<noteq> ks ! i'"
        using Cons.prems(3) [rule_format, of "Suc j"] Suc vs by simp
    qed
    have "map_of (rev (zip ks vs')) (ks ! i') = Some (vs' ! i')"
      using Cons.IH [of i' vs'] Cons.prems(1,2) later Suc vs by simp
    then show ?thesis
      using Suc vs by (simp add: map_of_append map_add_def)
  qed
qed

text \<open>
  C9. For a capture that is aligned with a parameter name and is not empty,
  \<open>Layer.params\<close> stores the decoded text under that name, and the captured text itself
  when the decoder fails; building the parameters has no failing branch, and the chain
  entry of a matched layer goes on to \<open>next\<close> whatever the decoder does.
\<close>

theorem params_keep_raw_on_decode_failure:
  assumes "i < length caps" and "i < length (layer_paramNames l)"
    and "\<forall>j. i < j \<and> j < length caps \<and> j < length (layer_paramNames l) \<longrightarrow>
           key_text (layer_paramNames l ! j) \<noteq> key_text (layer_paramNames l ! i)"
    and "caps ! i = Some c" and "c \<noteq> []"
  shows "(\<forall>d. decode c = Some d \<longrightarrow>
            layer_params decode l path caps existing (key_text (layer_paramNames l ! i)) =
              Some (Some d))
       \<and> (decode c = None \<longrightarrow>
            layer_params decode l path caps existing (key_text (layer_paramNames l ! i)) =
              Some (Some c))
       \<and> layer_entry decode l (PathString s) ctx cont =
            cont (enter_layer decode l (PathString s) (captures l s) ctx)"
proof -
  let ?ks = "map key_text (layer_paramNames l)"
  let ?vs = "map (\<lambda>c. if str_truthy c then Some (safeDecodeURIComponent decode (the c)) else c)
      caps"
  have "map_of (rev (zip ?ks ?vs)) (?ks ! i) = Some (?vs ! i)"
    by (rule map_of_rev_zip_nth) (use assms(1-3) in simp_all)
  then have "layer_params decode l path caps existing (key_text (layer_paramNames l ! i)) =
      Some (Some (safeDecodeURIComponent decode c))"
    using assms(1,2,4,5) by (simp add: layer_params_def params_loop_map str_truthy_def)
  moreover have "layer_entry decode l (PathString s) ctx cont =
      cont (enter_layer decode l (PathString s) (captures l s) ctx)"
    by (simp add: layer_entry_def entry_captures_def)
  ultimately show ?thesis
    by (simp add: safeDecodeURIComponent_def)
qed

theorem params_keep_raw_on_decode_failure_witness:
  "captures users_layer ''/users/%E0'' = [Some ''%E0''] \<and> example_decode ''%E0'' = None
   \<and> layer_params example_decode users_layer ''/users/%E0''
        (captures users_layer ''/users/%E0'') None ''id'' = Some (Some ''%E0'')
   \<and> captures users_layer ''/users/a%20b'' = [Some ''a%20b'']
   \<and> layer_params example_decode users_layer ''/users/a%20b''
        (captures users_layer ''/users/a%20b'') None ''id'' = Some (Some ''a b'')"
proof -
  have names: "layer_paramNames users_layer = [KStr ''id'']"
    by (simp add: users_layer_def)
  have c1: "captures users_layer ''/users/%E0'' = [Some ''%E0'']"
    and c2: "captures users_layer ''/users/a%20b'' = [Some ''a%20b'']"
    by (simp_all add: captures_def users_layer_def no_options_def)
  have d: "example_decode ''%E0'' = None" "example_decode ''a%20b'' = Some ''a b''"
    by (simp_all add: example_decode_def)
  have later: "\<forall>j. 0 < j \<and> j < length [x] \<and> j < length (layer_paramNames users_layer) \<longrightarrow>
      key_text (layer_paramNames users_layer ! j) \<noteq> key_text (layer_paramNames users_layer ! 0)"
    for x :: capture
    by auto
  show ?thesis
    using params_keep_raw_on_decode_failure [where i = 0 and caps = "[Some ''%E0'']"
        and l = users_layer and c = "''%E0''" and decode = example_decode
        and path = "''/users/%E0''" and existing = None and s = "[]"
        and ctx = "request [] []" and cont = finish, OF _ _ later]
      params_keep_raw_on_decode_failure [where i = 0 and caps = "[Some ''a%20b'']"
        and l = users_layer and c = "''a%20b''" and decode = example_decode
        and path = "''/users/a%20b''" and existing = None and s = "[]"
        and ctx = "request [] []" and cont = finish, OF _ _ later]
    by (simp add: names c1 c2 d)
qed

section \<open>Reverse lookup\<close>

lemma route_loop_find:
  "route_loop name ls = find (\<lambda>l. layer_name l = Some name) ls"
  by (induction ls) simp_all

lemma router_route_none:
  "(router_route r name = None) = (\<forall>l\<in>set (router_stack r). layer_name l \<noteq> Some name)"
  by (auto simp: router_route_def route_loop_find find_None_iff)

text \<open>
  C8, as the code has it. For a name that no layer of the stack carries, \<open>Router.url\<close>
  returns the \<open>Error\<close> object as its value: it does not throw, and the value is none
  of the strings that a successful generation returns. For a name that a layer carries,
  it returns what \<open>Layer.url\<close> gives for the first such layer of the stack. The
  override \<open>EggRouter.url\<close> returns the empty string for a name that no layer carries.
\<close>

theorem url_of_unknown_name:
  "((\<forall>l\<in>set (router_stack r). layer_name l \<noteq> Some name) \<longrightarrow>
      router_url parse compile search r name params rest =
        Inr (ErrorObject (''No route found for name: '' @ name))
      \<and> (\<forall>e. router_url parse compile search r name params rest \<noteq> Inl e)
      \<and> (\<forall>u. router_url parse compile search r name params rest \<noteq> Inr (UrlString u))
      \<and> egg_url encode r name given = (Inr [] :: 'e exn + string))
   \<and> (\<forall>route. find (\<lambda>l. layer_name l = Some name) (router_stack r) = Some route \<longrightarrow>
        router_url parse compile search r name params rest =
          (case layer_url parse compile search route params rest of
             Inl e \<Rightarrow> Inl e
           | Inr url \<Rightarrow> Inr (UrlString url)))"
proof (intro conjI impI allI)
  assume none: "\<forall>l\<in>set (router_stack r). layer_name l \<noteq> Some name"
  then have r: "router_route r name = None"
    by (simp add: router_route_none)
  show v: "router_url parse compile search r name params rest =
      Inr (ErrorObject (''No route found for name: '' @ name))"
    by (simp add: router_url_def r)
  show "router_url parse compile search r name params rest \<noteq> Inl e" for e
    by (simp add: v)
  show "router_url parse compile search r name params rest \<noteq> Inr (UrlString u)" for u
    by (simp add: v)
  show "egg_url encode r name given = (Inr [] :: 'e exn + string)"
    by (simp add: egg_url_def r)
next
  fix route
  assume "find (\<lambda>l. layer_name l = Some name) (router_stack r) = Some route"
  then have "router_route r name = Some route"
    by (simp add: router_route_def route_loop_find)
  then show "router_url parse compile search r name params rest =
          (case layer_url parse compile search route params rest of
             Inl e \<Rightarrow> Inl e
           | Inr url \<Rightarrow> Inr (UrlString url))"
    by (simp add: router_url_def)
qed

lemma users_layer_url:
  "layer_url example_parse (spec_compile example_encode example_parse) example_search
     users_layer (Obj [(''id'', Num ''3'')]) [] = (Inr ''/users/3'' :: nat exn + string)"
  by (simp add: layer_url_def users_layer_def spec_compile_def example_parse_def render_def
      render_token_def example_encode_def unreserved_def Let_def)

theorem url_of_unknown_name_witness:
  "list_all (\<lambda>l. layer_name l \<noteq> Some ''missing-name'') (router_stack users_router)
   \<and> router_url example_parse (spec_compile example_encode example_parse) example_search
        users_router ''missing-name'' (Obj []) [] =
      (Inr (ErrorObject ''No route found for name: missing-name'') :: nat exn + url_result)
   \<and> egg_url example_encode users_router ''missing-name'' None = (Inr [] :: nat exn + string)
   \<and> find (\<lambda>l. layer_name l = Some ''user'') (router_stack users_router) = Some users_layer
   \<and> router_url example_parse (spec_compile example_encode example_parse) example_search
        users_router ''user'' (Obj [(''id'', Num ''3'')]) [] =
      (Inr (UrlString ''/users/3'') :: nat exn + url_result)"
proof -
  have stack: "router_stack users_router = [users_layer]"
    by (simp add: users_router_def Router_def)
  have name: "layer_name users_layer = Some ''user''"
    by (simp add: users_layer_def)
  show ?thesis
    using url_of_unknown_name [where r = users_router and name = "''missing-name''"
        and parse = example_parse
        and compile = "spec_compile example_encode example_parse :: string \<Rightarrow> nat exn + _"
        and search = example_search and params = "Obj []" and rest = "[]"
        and encode = example_encode and given = None, where ?'e = nat]
      url_of_unknown_name [where r = users_router and name = "''user''"
        and parse = example_parse
        and compile = "spec_compile example_encode example_parse :: string \<Rightarrow> nat exn + _"
        and search = example_search and params = "Obj [(''id'', Num ''3'')]" and rest = "[]"
        and encode = example_encode and given = None, where ?'e = nat]
    by (simp add: stack name users_layer_url list_all_iff)
qed

text \<open>
  The claim as the specification states it fails on an \<open>EggRouter\<close>, whose \<open>url\<close> is
  the override: for a name that no layer carries the result is the empty string, as the
  test \<open>should router.url work\<close> expects, and not an error value.
\<close>

theorem egg_url_unknown_name_counterexample:
  "router_route users_router ''fooo'' = None
   \<and> egg_url example_encode users_router ''fooo'' None = (Inr [] :: nat exn + string)"
  by (simp add: egg_url_def router_route_def users_router_def Router_def users_layer_def)

section \<open>Unset parameters in generated URLs\<close>

lemma segments_faithful:
  "concat (map (\<lambda>t. case t of TString s \<Rightarrow> s | TKey k p \<Rightarrow> '':'' @ key_text k)
     (segments path)) = path"
proof (induction path rule: segments.induct)
  case 1
  then show ?case by simp
next
  case (2 c cs)
  show ?case
  proof (cases "c = CHR '':'' \<and> cs \<noteq> [] \<and> ident_start (hd cs)")
    case True
    then show ?thesis
      using "2.IH"(1) by auto
  next
    case False
    then show ?thesis
      using "2.IH"(2) by auto
  qed
qed

lemma replace_params_segments:
  "fst (replace_params encode args path) =
     concat (map (\<lambda>t. case t of
                          TString s \<Rightarrow> s
                        | TKey k p \<Rightarrow>
                            if has_property args (key_text k)
                            then param_text encode (read_property args (key_text k))
                            else '':'' @ key_text k)
               (segments path))"
proof (induction encode args path rule: replace_params.induct)
  case (1 encode args)
  then show ?case by simp
next
  case (2 encode args c cs)
  show ?case
  proof (cases "c = CHR '':'' \<and> cs \<noteq> [] \<and> ident_start (hd cs)")
    case True
    then show ?thesis
      using "2.IH"(1) [OF True refl]
      by (auto simp: Let_def split: prod.splits)
  next
    case False
    then show ?thesis
      using "2.IH"(2) [OF False]
      by (auto simp: Let_def split: prod.splits)
  qed
qed

lemma replace_params_unset:
  assumes "\<forall>t\<in>set (segments path). \<forall>k p. t = TKey k p \<longrightarrow> \<not> has_property args (key_text k)"
  shows "fst (replace_params encode args path) = path"
proof -
  have "map (\<lambda>t. case t of
                    TString s \<Rightarrow> s
                  | TKey k p \<Rightarrow>
                      if has_property args (key_text k)
                      then param_text encode (read_property args (key_text k))
                      else '':'' @ key_text k) (segments path) =
        map (\<lambda>t. case t of TString s \<Rightarrow> s | TKey k p \<Rightarrow> '':'' @ key_text k) (segments path)"
    using assms by (intro map_cong refl) (auto split: token.splits)
  then show ?thesis
    by (simp only: replace_params_segments segments_faithful)
qed

lemma egg_url_record:
  assumes "router_route r name = Some l" and "layer_path l = PathString path"
  shows "egg_url encode r name (Some args) =
     Inr (let url = fst (replace_params encode args path);
              queries = query_entries encode (snd (replace_params encode args path)) args
          in if queries = [] then url
             else url @ (if CHR ''?'' \<notin> set url then ''?'' else ''&'') @ join ''&'' queries)"
    and "egg_url encode r name None = Inr path"
  using assms by (auto simp: egg_url_def Let_def split: prod.splits)

lemma layer_url_record:
  assumes "layer_path l = PathString path"
  shows "layer_url parse compile search l (Obj args) [] =
     (case compile (strip_wildcards path) of
        Inl e \<Rightarrow> Inl e
      | Inr toPath \<Rightarrow>
          if list_ex token_named (parse (strip_wildcards path)) then toPath (Obj args)
          else (case toPath (Obj []) of
                  Inl e \<Rightarrow> Inl e
                | Inr replaced \<Rightarrow>
                    if js_truthy (get_prop (Obj args) ''query'')
                    then Inr (search replaced (get_prop (Obj args) ''query''))
                    else Inr replaced))"
  using assms by (simp add: layer_url_def Let_def split: sum.splits)

lemma router_url_record:
  assumes "router_route r name = Some l"
  shows "router_url parse compile search r name params rest =
     (case layer_url parse compile search l params rest of
        Inl e \<Rightarrow> Inl e
      | Inr url \<Rightarrow> Inr (UrlString url))"
  using assms by (simp add: router_url_def)

text \<open>
  C7, as the code has it. For a route with a string pattern and a record of parameters,
  \<open>EggRouter.url\<close> has no throwing branch, and its result is the path in which every
  placeholder \<open>:name\<close> whose name is not \<open>in\<close> the record stands as it was, followed
  by the query of the keys that replaced nothing. \<open>Layer.url\<close> gives the record as it
  is to the reverse function that \<open>path-to-regexp\<close> compiles for the pattern, and
  returns what that function returns or throws what it throws; \<open>Router.url\<close> does the
  same through the first layer of the name.
\<close>

theorem url_with_unset_parameters:
  "(router_route r name = Some l \<and> layer_path l = PathString path \<longrightarrow>
      egg_url encode r name (Some args) =
        (Inr (let url = fst (replace_params encode args path);
                  queries = query_entries encode (snd (replace_params encode args path)) args
              in if queries = [] then url
                 else url @ (if CHR ''?'' \<notin> set url then ''?'' else ''&'')
                        @ join ''&'' queries) :: 'e exn + string)
      \<and> egg_url encode r name None = (Inr path :: 'e exn + string))
   \<and> fst (replace_params encode args path) =
       concat (map (\<lambda>t. case t of
                            TString s \<Rightarrow> s
                          | TKey k p \<Rightarrow>
                              if has_property args (key_text k)
                              then param_text encode (read_property args (key_text k))
                              else '':'' @ key_text k)
                 (segments path))
   \<and> concat (map (\<lambda>t. case t of TString s \<Rightarrow> s | TKey k p \<Rightarrow> '':'' @ key_text k)
         (segments path)) = path
   \<and> ((\<forall>t\<in>set (segments path). \<forall>k p. t = TKey k p \<longrightarrow> \<not> has_property args (key_text k)) \<longrightarrow>
        fst (replace_params encode args path) = path)
   \<and> (layer_path l = PathString path \<longrightarrow>
        layer_url parse compile search l (Obj args) [] =
          (case compile (strip_wildcards path) of
             Inl e \<Rightarrow> (Inl e :: 'e exn + string)
           | Inr toPath \<Rightarrow>
               if list_ex token_named (parse (strip_wildcards path)) then toPath (Obj args)
               else (case toPath (Obj []) of
                       Inl e \<Rightarrow> Inl e
                     | Inr replaced \<Rightarrow>
                         if js_truthy (get_prop (Obj args) ''query'')
                         then Inr (search replaced (get_prop (Obj args) ''query''))
                         else Inr replaced)))
   \<and> (router_route r name = Some l \<longrightarrow>
        router_url parse compile search r name (Obj args) [] =
          (case layer_url parse compile search l (Obj args) [] of
             Inl e \<Rightarrow> Inl e
           | Inr url \<Rightarrow> Inr (UrlString url)))"
  apply (intro conjI impI)
  subgoal by (elim conjE) (rule egg_url_record(1), assumption+)
  subgoal by (elim conjE) (rule egg_url_record(2), assumption+)
  subgoal by (rule replace_params_segments)
  subgoal by (rule segments_faithful)
  subgoal by (rule replace_params_unset)
  subgoal by (rule layer_url_record)
  subgoal by (rule router_url_record)
  done

lemma users_layer_path: "layer_path users_layer = PathString ''/users/:id''"
  by (simp add: users_layer_def)

lemma users_router_route: "router_route users_router ''user'' = Some users_layer"
  by (simp add: router_route_def users_router_def Router_def users_layer_def)

lemma users_segments:
  "segments ''/users/:id'' =
     [TString ''/'', TString ''u'', TString ''s'', TString ''e'', TString ''r'', TString ''s'',
      TString ''/'', TKey (KStr ''id'') []]"
  by (simp add: ident_start_def word_char_def)

lemma users_replace:
  "replace_params example_encode [(''foo'', Str ''a b'')] ''/users/:id'' = (''/users/:id'', [])"
  by (simp add: ident_start_def word_char_def has_property_def object_prototype_def Let_def)

lemma strict_users_url:
  "layer_url example_parse (strict_compile example_encode example_parse) example_search
     users_layer (Obj [(''foo'', Str ''a b'')]) [] =
   (Inl (TypeError (''Expected '' @ [CHR 0x22] @ ''id'' @ [CHR 0x22] @ '' to be defined''))
      :: nat exn + string)"
  by (simp add: layer_url_def users_layer_def strict_compile_def example_parse_def Let_def)

theorem url_with_unset_parameters_witness:
  "router_route users_router ''user'' = Some users_layer
   \<and> layer_path users_layer = PathString ''/users/:id''
   \<and> list_all (\<lambda>t. case t of TString s \<Rightarrow> True
                           | TKey k p \<Rightarrow> \<not> has_property [(''foo'', Str ''a b'')] (key_text k))
        (segments ''/users/:id'')
   \<and> fst (replace_params example_encode [(''foo'', Str ''a b'')] ''/users/:id'') = ''/users/:id''
   \<and> egg_url example_encode users_router ''user'' (Some [(''foo'', Str ''a b'')]) =
      (Inr ''/users/:id?foo=a%20b'' :: nat exn + string)
   \<and> layer_url example_parse (strict_compile example_encode example_parse) example_search
        users_layer (Obj [(''foo'', Str ''a b'')]) [] =
      (Inl (TypeError (''Expected '' @ [CHR 0x22] @ ''id'' @ [CHR 0x22] @ '' to be defined''))
         :: nat exn + string)
   \<and> router_url example_parse (strict_compile example_encode example_parse) example_search
        users_router ''user'' (Obj [(''foo'', Str ''a b'')]) [] =
      (Inl (TypeError (''Expected '' @ [CHR 0x22] @ ''id'' @ [CHR 0x22] @ '' to be defined''))
         :: nat exn + url_result)"
proof -
  have route: "router_route users_router ''user'' = Some users_layer
      \<and> layer_path users_layer = PathString ''/users/:id''"
    by (simp add: users_router_route users_layer_path)
  have unset: "\<forall>t\<in>set (segments ''/users/:id''). \<forall>k p. t = TKey k p \<longrightarrow>
      \<not> has_property [(''foo'', Str ''a b'')] (key_text k)"
    by (simp add: users_segments has_property_def object_prototype_def)
  have all: "list_all (\<lambda>t. case t of TString s \<Rightarrow> True
                           | TKey k p \<Rightarrow> \<not> has_property [(''foo'', Str ''a b'')] (key_text k))
        (segments ''/users/:id'')"
    by (simp add: users_segments has_property_def object_prototype_def)
  have query: "query_entries example_encode [] [(''foo'', Str ''a b'')] = [''foo=a%20b'']"
    by (simp add: example_encode_def unreserved_def percent_def Let_def)
  note t = url_with_unset_parameters [where r = users_router and name = "''user''"
      and l = users_layer and path = "''/users/:id''" and encode = example_encode
      and args = "[(''foo'', Str ''a b'')]" and parse = example_parse
      and compile = "strict_compile example_encode example_parse :: string \<Rightarrow> nat exn + _"
      and search = example_search]
  have kept: "fst (replace_params example_encode [(''foo'', Str ''a b'')] ''/users/:id'') =
      ''/users/:id''"
    using t [THEN conjunct2, THEN conjunct2, THEN conjunct2, THEN conjunct1] unset
    by (rule mp)
  have "egg_url example_encode users_router ''user'' (Some [(''foo'', Str ''a b'')]) =
      (Inr (let url = fst (replace_params example_encode [(''foo'', Str ''a b'')] ''/users/:id'');
                queries = query_entries example_encode
                  (snd (replace_params example_encode [(''foo'', Str ''a b'')] ''/users/:id''))
                  [(''foo'', Str ''a b'')]
            in if queries = [] then url
               else url @ (if CHR ''?'' \<notin> set url then ''?'' else ''&'')
                      @ join ''&'' queries) :: nat exn + string)"
    using t [THEN conjunct1, THEN mp, OF route, THEN conjunct1] .
  then have egg: "egg_url example_encode users_router ''user'' (Some [(''foo'', Str ''a b'')]) =
      (Inr ''/users/:id?foo=a%20b'' :: nat exn + string)"
    by (simp only: users_replace query fst_conv snd_conv Let_def) simp
  have "router_url example_parse (strict_compile example_encode example_parse) example_search
        users_router ''user'' (Obj [(''foo'', Str ''a b'')]) [] =
      (case layer_url example_parse (strict_compile example_encode example_parse)
              example_search users_layer (Obj [(''foo'', Str ''a b'')]) [] of
         Inl e \<Rightarrow> Inl e
       | Inr url \<Rightarrow> (Inr (UrlString url) :: nat exn + url_result))"
    using t [THEN conjunct2, THEN conjunct2, THEN conjunct2, THEN conjunct2, THEN conjunct2,
        THEN mp, OF users_router_route] .
  then have router: "router_url example_parse (strict_compile example_encode example_parse)
        example_search users_router ''user'' (Obj [(''foo'', Str ''a b'')]) [] =
      (Inl (TypeError (''Expected '' @ [CHR 0x22] @ ''id'' @ [CHR 0x22] @ '' to be defined''))
         :: nat exn + url_result)"
    by (simp only: strict_users_url sum.case)
  show ?thesis
    using route all kept egg strict_users_url router by blast
qed

text \<open>
  The claim as the specification states it fails in both generators. In
  \<open>EggRouter.url\<close> the test \<open>key in args\<close> holds for the names that every object
  inherits, so the placeholder \<open>:constructor\<close> is replaced although the record is empty.
  In \<open>Layer.url\<close> nothing stands between the caller and the reverse function of
  \<open>path-to-regexp\<close>, which throws for the parameter that the record leaves out.
\<close>

theorem unset_parameter_counterexample:
  "router_route constructor_router ''c'' = Some (hd (router_stack constructor_router))
   \<and> layer_path (hd (router_stack constructor_router)) = PathString ''/x/:constructor''
   \<and> egg_url example_encode constructor_router ''c'' (Some []) =
      (Inr ''/x/function%20Object()%20%7B%20%5Bnative%20code%5D%20%7D'' :: nat exn + string)
   \<and> layer_url example_parse (strict_compile example_encode example_parse) example_search
        users_layer (Obj [(''foo'', Str ''a b'')]) [] =
      (Inl (TypeError (''Expected '' @ [CHR 0x22] @ ''id'' @ [CHR 0x22] @ '' to be defined''))
         :: nat exn + string)"
proof -
  have stack: "router_stack constructor_router =
      [named_layer ''c'' ''/x/:constructor''
         (\<lambda>s. if take 3 s = ''/x/'' \<and> CHR ''/'' \<notin> set (drop 3 s) \<and> drop 3 s \<noteq> []
              then Some [Some s, Some (drop 3 s)] else None) [KStr ''constructor''] 1]"
    by (simp add: constructor_router_def Router_def)
  have route: "router_route constructor_router ''c'' = Some (hd (router_stack constructor_router))"
    by (simp add: router_route_def stack named_layer_def)
  have path: "layer_path (hd (router_stack constructor_router)) = PathString ''/x/:constructor''"
    by (simp add: stack named_layer_def)
  have replaced: "replace_params example_encode [] ''/x/:constructor'' =
      (''/x/function%20Object()%20%7B%20%5Bnative%20code%5D%20%7D'', [''constructor''])"
    by (simp add: ident_start_def word_char_def has_property_def read_property_def
        object_prototype_def native_def param_text_def example_encode_def unreserved_def
        percent_def Let_def)
  have "egg_url example_encode constructor_router ''c'' (Some []) =
      (Inr ''/x/function%20Object()%20%7B%20%5Bnative%20code%5D%20%7D'' :: nat exn + string)"
    by (simp add: egg_url_def route path replaced del: replace_params.simps)
  then show ?thesis
    using route path strict_users_url by simp
qed

end
